(* ===== verification/Prelude.thy ===== *)
theory Prelude
  imports Complex_Main "HOL-Library.Word" "HOL-Library.Sublist"
begin

text \<open>
  Shared vocabulary of the development: the byte type that models Foundation's
  \<open>Data\<close>, tables that read a string literal back into the enumeration it names
  (the TypeScript string-literal unions).  The collections
  \<open>literal_defs\<close> and \<open>proxy_defs\<close> gather the definitions that the component
  proofs unfold together.
\<close>

named_theorems literal_defs "definitions of the string-literal encodings"
named_theorems proxy_defs "definitions the proxy adapter proofs unfold"

type_synonym byte = "8 word"
type_synonym bytes = "byte list"

text \<open>
  JSON values, shared by the webhook schema (TypeScript \<open>any\<close>) and by the bodies
  the proxy adapter sends.  An object keeps its members in order, as the text does.
\<close>

datatype json =
    JNull
  | JBool bool
  | JNumber rat
  | JString string
  | JArray "json list"
  | JObject "(string \<times> json) list"

subsection \<open>Literal tables\<close>

text \<open>
  A closed set of string literals is decoded by looking the string up in the table
  that pairs each value's literal with the value; a string it accepts is the literal
  of the value it gives.
\<close>

definition literal_table :: "('a \<Rightarrow> string) \<Rightarrow> 'a list \<Rightarrow> string \<Rightarrow> 'a option" where
  "literal_table lit xs s = map_of (map (\<lambda>x. (lit x, x)) xs) s"

lemma literal_table_SomeD:
  "literal_table lit xs s = Some x \<Longrightarrow> lit x = s \<and> x \<in> set xs"
proof (induction xs)
  case Nil
  then show ?case by (simp add: literal_table_def)
next
  case (Cons y ys)
  then show ?case by (auto simp: literal_table_def split: if_splits)
qed

end
