(* ===== verification/Webhook_Types.thy ===== *)
theory Webhook_Types
  imports Prelude "HOL-Library.DAList"
begin

text \<open>
  The RevenueCat webhook schema of \<open>src/src/types/revenuecat-webhooks.ts\<close>.  Each
  string-literal union is a datatype with one constructor per literal, together with
  its literal encoding and the literal table that decodes it.  The interfaces are
  records; the event union \<open>RevenueCatEvent\<close> is a datatype whose constructor is the
  discriminant \<open>type\<close>, so that exactly one tag selects exactly one variant shape.
  TypeScript's \<open>number\<close> is a finite IEEE double: every such value is a rational,
  so \<open>number\<close> is \<open>rat\<close>.  An optional field \<open>f?: T\<close> is \<open>T option\<close>; a field
  \<open>f?: T | null\<close> has three states (absent, null, a value) and is
  \<open>T nullable option\<close>; a field typed \<open>null\<close> carries no information and is
  left out of the record (it is the constant null on the wire); \<open>any | null\<close> is
  \<open>any\<close>, a JSON value, since \<open>any\<close> already admits null.
\<close>

type_synonym number = rat

datatype 'a nullable = Null | Nonnull 'a

subsection \<open>String-literal unions\<close>

datatype revenue_cat_store =
  APP_STORE | PLAY_STORE | STRIPE | AMAZON | MAC_APP_STORE | PROMOTIONAL | RC_BILLING

datatype revenue_cat_environment = PRODUCTION | SANDBOX

datatype period_type = NORMAL | TRIAL | INTRO | GRACE

datatype revenue_cat_event_type =
    INITIAL_PURCHASE
  | RENEWAL
  | CANCELLATION
  | UNCANCELLATION
  | NON_RENEWING_PURCHASE
  | SUBSCRIPTION_PAUSED
  | EXPIRATION
  | PRODUCT_CHANGE
  | BILLING_ISSUE
  | REFUND
  | REFUND_REVERSED
  | TRANSFER
  | SUBSCRIPTION_EXTENDED
  | TRIAL_STARTED
  | TRIAL_CANCELLED
  | INVOICE_ISSUANCE
  | TEMPORARY_ENTITLEMENT_GRANT
  | VIRTUAL_CURRENCY_TRANSACTION

primrec store_literal :: "revenue_cat_store \<Rightarrow> string" where
  "store_literal APP_STORE = ''APP_STORE''"
| "store_literal PLAY_STORE = ''PLAY_STORE''"
| "store_literal STRIPE = ''STRIPE''"
| "store_literal AMAZON = ''AMAZON''"
| "store_literal MAC_APP_STORE = ''MAC_APP_STORE''"
| "store_literal PROMOTIONAL = ''PROMOTIONAL''"
| "store_literal RC_BILLING = ''RC_BILLING''"

definition all_stores :: "revenue_cat_store list" where
  "all_stores = [APP_STORE, PLAY_STORE, STRIPE, AMAZON, MAC_APP_STORE, PROMOTIONAL, RC_BILLING]"

definition store_of_literal :: "string \<Rightarrow> revenue_cat_store option" where
  "store_of_literal = literal_table store_literal all_stores"

primrec environment_literal :: "revenue_cat_environment \<Rightarrow> string" where
  "environment_literal PRODUCTION = ''PRODUCTION''"
| "environment_literal SANDBOX = ''SANDBOX''"

definition all_environments :: "revenue_cat_environment list" where
  "all_environments = [PRODUCTION, SANDBOX]"

definition environment_of_literal :: "string \<Rightarrow> revenue_cat_environment option" where
  "environment_of_literal = literal_table environment_literal all_environments"

primrec period_type_literal :: "period_type \<Rightarrow> string" where
  "period_type_literal NORMAL = ''NORMAL''"
| "period_type_literal TRIAL = ''TRIAL''"
| "period_type_literal INTRO = ''INTRO''"
| "period_type_literal GRACE = ''GRACE''"

definition all_period_types :: "period_type list" where
  "all_period_types = [NORMAL, TRIAL, INTRO, GRACE]"

definition period_type_of_literal :: "string \<Rightarrow> period_type option" where
  "period_type_of_literal = literal_table period_type_literal all_period_types"

primrec event_type_literal :: "revenue_cat_event_type \<Rightarrow> string" where
  "event_type_literal INITIAL_PURCHASE = ''INITIAL_PURCHASE''"
| "event_type_literal RENEWAL = ''RENEWAL''"
| "event_type_literal CANCELLATION = ''CANCELLATION''"
| "event_type_literal UNCANCELLATION = ''UNCANCELLATION''"
| "event_type_literal NON_RENEWING_PURCHASE = ''NON_RENEWING_PURCHASE''"
| "event_type_literal SUBSCRIPTION_PAUSED = ''SUBSCRIPTION_PAUSED''"
| "event_type_literal EXPIRATION = ''EXPIRATION''"
| "event_type_literal PRODUCT_CHANGE = ''PRODUCT_CHANGE''"
| "event_type_literal BILLING_ISSUE = ''BILLING_ISSUE''"
| "event_type_literal REFUND = ''REFUND''"
| "event_type_literal REFUND_REVERSED = ''REFUND_REVERSED''"
| "event_type_literal TRANSFER = ''TRANSFER''"
| "event_type_literal SUBSCRIPTION_EXTENDED = ''SUBSCRIPTION_EXTENDED''"
| "event_type_literal TRIAL_STARTED = ''TRIAL_STARTED''"
| "event_type_literal TRIAL_CANCELLED = ''TRIAL_CANCELLED''"
| "event_type_literal INVOICE_ISSUANCE = ''INVOICE_ISSUANCE''"
| "event_type_literal TEMPORARY_ENTITLEMENT_GRANT = ''TEMPORARY_ENTITLEMENT_GRANT''"
| "event_type_literal VIRTUAL_CURRENCY_TRANSACTION = ''VIRTUAL_CURRENCY_TRANSACTION''"

definition all_event_types :: "revenue_cat_event_type list" where
  "all_event_types =
     [INITIAL_PURCHASE, RENEWAL, CANCELLATION, UNCANCELLATION, NON_RENEWING_PURCHASE,
      SUBSCRIPTION_PAUSED, EXPIRATION, PRODUCT_CHANGE, BILLING_ISSUE, REFUND,
      REFUND_REVERSED, TRANSFER, SUBSCRIPTION_EXTENDED, TRIAL_STARTED, TRIAL_CANCELLED,
      INVOICE_ISSUANCE, TEMPORARY_ENTITLEMENT_GRANT, VIRTUAL_CURRENCY_TRANSACTION]"

definition event_type_of_literal :: "string \<Rightarrow> revenue_cat_event_type option" where
  "event_type_of_literal = literal_table event_type_literal all_event_types"

subsection \<open>Interfaces\<close>

text \<open>
  \<open>SubscriberAttributes\<close>: an index signature from attribute names to entries.  A
  JavaScript object holds each name once, in the order the names were first set, so
  the attributes are an association list with distinct keys (\<open>DAList\<close>).
\<close>

record subscriber_attribute =
  attribute_value :: string
  updated_at_ms :: number

type_synonym subscriber_attributes = "(string, subscriber_attribute) alist"

record virtual_currency =
  currency_code :: string
  currency_name :: string
  currency_description :: string

record virtual_currency_adjustment =
  amount :: number
  adjustment_currency :: virtual_currency

text \<open>
  \<open>BaseRevenueCatEvent\<close> without its discriminant \<open>type\<close>, which is the
  constructor of \<open>revenue_cat_event\<close>; \<open>id\<close> is \<open>event_id\<close>.
\<close>

record base_revenue_cat_event =
  event_id :: string
  app_id :: string
  app_user_id :: string
  event_timestamp_ms :: number
  aliases :: "string list option"
  original_app_user_id :: "string option"
  subscriber_attributes :: "subscriber_attributes option"
  store :: "revenue_cat_store option"

record purchase_event_fields =
  product_id :: string
  period_type :: period_type
  purchased_at_ms :: number
  expiration_at_ms :: "number option"
  environment :: revenue_cat_environment
  entitlement_id :: "string nullable option"
  entitlement_ids :: "string list option"
  presented_offering_id :: "string nullable option"
  transaction_id :: string
  original_transaction_id :: string
  is_family_share :: bool
  country_code :: "string option"
  currency :: "string option"
  price :: "number option"
  price_in_purchased_currency :: "number option"
  takehome_percentage :: "number nullable option"
  offer_code :: "string nullable option"
  tax_percentage :: "number nullable option"
  commission_percentage :: "number nullable option"
  renewal_number :: "number nullable option"
  metadata :: "json option"

text \<open>
  The fields of \<open>InvoiceIssuanceEvent\<close> that carry data; its fields typed
  \<open>null\<close> (period type, expiration, entitlements, offering, transaction ids,
  percentages, offer code, metadata, renewal number) are the constant null.
\<close>

record invoice_issuance_fields =
  invoice_product_id :: string
  invoice_purchased_at_ms :: number
  invoice_environment :: revenue_cat_environment
  invoice_is_family_share :: bool
  invoice_country_code :: "string option"
  invoice_currency :: "string option"
  invoice_price_in_purchased_currency :: "number option"

record virtual_currency_transaction_fields =
  adjustments :: "virtual_currency_adjustment list"
  product_display_name :: "string option"
  vc_product_id :: string
  purchase_environment :: revenue_cat_environment
  source :: string
  vc_transaction_id :: string
  virtual_currency_transaction_id :: string

subsection \<open>The event union\<close>

datatype revenue_cat_event =
    Initial_Purchase_Event base_revenue_cat_event purchase_event_fields
  | Renewal_Event base_revenue_cat_event purchase_event_fields
  | Cancellation_Event base_revenue_cat_event purchase_event_fields
      (cancel_reason: "string option")
  | Uncancellation_Event base_revenue_cat_event purchase_event_fields
  | Non_Renewing_Purchase_Event base_revenue_cat_event purchase_event_fields
  | Subscription_Paused_Event base_revenue_cat_event purchase_event_fields
      (auto_resume_at_ms: "number option")
  | Expiration_Event base_revenue_cat_event purchase_event_fields
      (expiration_reason: "string option")
  | Product_Change_Event base_revenue_cat_event purchase_event_fields
      (old_product_id: "string option")
  | Billing_Issue_Event base_revenue_cat_event purchase_event_fields
      (grace_period_expiration_at_ms: "number option")
  | Refund_Event base_revenue_cat_event purchase_event_fields
      (refund_reason: "string option")
  | Refund_Reversed_Event base_revenue_cat_event purchase_event_fields
  | Transfer_Event base_revenue_cat_event
      (transferred_from: "string list option") (transferred_to: "string list option")
  | Subscription_Extended_Event base_revenue_cat_event purchase_event_fields
      (new_expiration_at_ms: number)
  | Trial_Started_Event base_revenue_cat_event purchase_event_fields
  | Trial_Cancelled_Event base_revenue_cat_event purchase_event_fields
  | Invoice_Issuance_Event base_revenue_cat_event invoice_issuance_fields
  | Temporary_Entitlement_Grant_Event base_revenue_cat_event
  | Virtual_Currency_Transaction_Event base_revenue_cat_event
      virtual_currency_transaction_fields

record revenue_cat_webhook_payload =
  event :: revenue_cat_event
  api_version :: string

text \<open>The discriminant \<open>event.type\<close>: the literal each interface fixes for \<open>type\<close>.\<close>

fun event_type :: "revenue_cat_event \<Rightarrow> revenue_cat_event_type" where
  "event_type (Initial_Purchase_Event _ _) = INITIAL_PURCHASE"
| "event_type (Renewal_Event _ _) = RENEWAL"
| "event_type (Cancellation_Event _ _ _) = CANCELLATION"
| "event_type (Uncancellation_Event _ _) = UNCANCELLATION"
| "event_type (Non_Renewing_Purchase_Event _ _) = NON_RENEWING_PURCHASE"
| "event_type (Subscription_Paused_Event _ _ _) = SUBSCRIPTION_PAUSED"
| "event_type (Expiration_Event _ _ _) = EXPIRATION"
| "event_type (Product_Change_Event _ _ _) = PRODUCT_CHANGE"
| "event_type (Billing_Issue_Event _ _ _) = BILLING_ISSUE"
| "event_type (Refund_Event _ _ _) = REFUND"
| "event_type (Refund_Reversed_Event _ _) = REFUND_REVERSED"
| "event_type (Transfer_Event _ _ _) = TRANSFER"
| "event_type (Subscription_Extended_Event _ _ _) = SUBSCRIPTION_EXTENDED"
| "event_type (Trial_Started_Event _ _) = TRIAL_STARTED"
| "event_type (Trial_Cancelled_Event _ _) = TRIAL_CANCELLED"
| "event_type (Invoice_Issuance_Event _ _) = INVOICE_ISSUANCE"
| "event_type (Temporary_Entitlement_Grant_Event _) = TEMPORARY_ENTITLEMENT_GRANT"
| "event_type (Virtual_Currency_Transaction_Event _ _) = VIRTUAL_CURRENCY_TRANSACTION"

text \<open>The fields every variant shares (\<open>BaseRevenueCatEvent\<close>).\<close>

fun event_base :: "revenue_cat_event \<Rightarrow> base_revenue_cat_event" where
  "event_base (Initial_Purchase_Event b _) = b"
| "event_base (Renewal_Event b _) = b"
| "event_base (Cancellation_Event b _ _) = b"
| "event_base (Uncancellation_Event b _) = b"
| "event_base (Non_Renewing_Purchase_Event b _) = b"
| "event_base (Subscription_Paused_Event b _ _) = b"
| "event_base (Expiration_Event b _ _) = b"
| "event_base (Product_Change_Event b _ _) = b"
| "event_base (Billing_Issue_Event b _ _) = b"
| "event_base (Refund_Event b _ _) = b"
| "event_base (Refund_Reversed_Event b _) = b"
| "event_base (Transfer_Event b _ _) = b"
| "event_base (Subscription_Extended_Event b _ _) = b"
| "event_base (Trial_Started_Event b _) = b"
| "event_base (Trial_Cancelled_Event b _) = b"
| "event_base (Invoice_Issuance_Event b _) = b"
| "event_base (Temporary_Entitlement_Grant_Event b) = b"
| "event_base (Virtual_Currency_Transaction_Event b _) = b"

subsection \<open>Type guards\<close>

definition isInitialPurchase :: "revenue_cat_event \<Rightarrow> bool" where
  "isInitialPurchase e \<longleftrightarrow> event_type e = INITIAL_PURCHASE"

definition isRenewal :: "revenue_cat_event \<Rightarrow> bool" where
  "isRenewal e \<longleftrightarrow> event_type e = RENEWAL"

declare store_of_literal_def [literal_defs] environment_of_literal_def [literal_defs]
  period_type_of_literal_def [literal_defs] event_type_of_literal_def [literal_defs]

subsection \<open>The literal encodings are decoded by their tables\<close>

lemma store_literal_table [simp]: "store_of_literal (store_literal x) = Some x"
  by (cases x) (simp_all add: literal_defs literal_table_def all_stores_def)

lemma environment_literal_table [simp]:
  "environment_of_literal (environment_literal x) = Some x"
  by (cases x) (simp_all add: literal_defs literal_table_def all_environments_def)

lemma period_type_literal_table [simp]:
  "period_type_of_literal (period_type_literal x) = Some x"
  by (cases x) (simp_all add: literal_defs literal_table_def all_period_types_def)

lemma event_type_literal_table [simp]:
  "event_type_of_literal (event_type_literal x) = Some x"
  by (cases x) (simp_all add: literal_defs literal_table_def all_event_types_def)

subsection \<open>Type guards narrow the union\<close>

text \<open>C12: \<open>isInitialPurchase\<close> holds exactly for the \<open>InitialPurchaseEvent\<close> variant.\<close>

theorem isInitialPurchase_narrows:
  "isInitialPurchase e \<longleftrightarrow> (\<exists>b p. e = Initial_Purchase_Event b p)"
  by (cases e) (simp_all add: isInitialPurchase_def)

text \<open>C13: \<open>isRenewal\<close> holds exactly for the \<open>RenewalEvent\<close> variant.\<close>

theorem isRenewal_narrows:
  "isRenewal e \<longleftrightarrow> (\<exists>b p. e = Renewal_Event b p)"
  by (cases e) (simp_all add: isRenewal_def)

text \<open>The two guards never hold together: one tag selects one variant.\<close>

lemma guards_exclusive: "\<not> (isInitialPurchase e \<and> isRenewal e)"
  by (simp add: isInitialPurchase_def isRenewal_def)

end
