(* ===== verification/Webhook_Json.thy ===== *)
theory Webhook_Json
  imports Webhook_Types "HOL-Library.Monad_Syntax"
begin

text \<open>
  The runtime reading of the webhook schema: which JSON values the TypeScript
  declarations of \<open>src/src/types/revenuecat-webhooks.ts\<close> accept as a
  \<open>RevenueCatEvent\<close>, and the JSON each event is written as.  A decoder follows
  each interface member by member: a required member \<open>f: T\<close> must be present with a
  value of type \<open>T\<close>; an optional one \<open>f?: T\<close> may be absent; \<open>f?: T | null\<close> may
  also be null; a member typed \<open>null\<close> must be present and null.  Members the
  interface does not name are ignored, as structural typing ignores them.  A member
  is looked up as \<open>JSON.parse\<close> leaves it: the last of duplicate keys wins, and the
  subscriber attributes are the object \<open>JSON.parse\<close> builds, one entry per name.  The
  event decoder reads the tag \<open>type\<close> first and then the interface that tag selects.
  The encoder writes every present member once, in declaration order.  The lemmas
  show the round trip of the payload, that the tag selects the variant, that null
  members of the invoice event are required, and that a missing base or purchase
  member rejects the event.
\<close>

type_synonym json_lookup = "string \<Rightarrow> json option"

subsection \<open>Reading members\<close>

definition member :: "(string \<times> json) list \<Rightarrow> json_lookup" where
  "member obj = map_of (rev obj)"

fun json_string :: "json \<Rightarrow> string option" where
  "json_string (JString s) = Some s"
| "json_string _ = None"

fun json_number :: "json \<Rightarrow> rat option" where
  "json_number (JNumber n) = Some n"
| "json_number _ = None"

fun json_bool :: "json \<Rightarrow> bool option" where
  "json_bool (JBool b) = Some b"
| "json_bool _ = None"

fun json_array :: "(json \<Rightarrow> 'a option) \<Rightarrow> json \<Rightarrow> 'a list option" where
  "json_array f (JArray xs) = those (map f xs)"
| "json_array f _ = None"

definition json_literal :: "(string \<Rightarrow> 'a option) \<Rightarrow> json \<Rightarrow> 'a option" where
  "json_literal table j = Option.bind (json_string j) table"

text \<open>A required member, an optional one, an optional nullable one.\<close>

definition req :: "(json \<Rightarrow> 'a option) \<Rightarrow> json option \<Rightarrow> 'a option" where
  "req f v = Option.bind v f"

definition opt :: "(json \<Rightarrow> 'a option) \<Rightarrow> json option \<Rightarrow> 'a option option" where
  "opt f v = (case v of None \<Rightarrow> Some None | Some j \<Rightarrow> map_option Some (f j))"

definition opt_nullable :: "(json \<Rightarrow> 'a option) \<Rightarrow> json option \<Rightarrow> 'a nullable option option" where
  "opt_nullable f v =
     (case v of
        None \<Rightarrow> Some None
      | Some j \<Rightarrow> if j = JNull then Some (Some Null) else map_option (Some \<circ> Nonnull) (f j))"

subsection \<open>Writing members\<close>

definition enc_opt :: "('a \<Rightarrow> json) \<Rightarrow> 'a option \<Rightarrow> json option" where
  "enc_opt f x = map_option f x"

definition enc_nullable :: "('a \<Rightarrow> json) \<Rightarrow> 'a nullable option \<Rightarrow> json option" where
  "enc_nullable f x =
     (case x of None \<Rightarrow> None | Some Null \<Rightarrow> Some JNull | Some (Nonnull y) \<Rightarrow> Some (f y))"

definition json_strings :: "string list \<Rightarrow> json" where
  "json_strings xs = JArray (map JString xs)"

definition json_of_literal :: "('a \<Rightarrow> string) \<Rightarrow> 'a \<Rightarrow> json" where
  "json_of_literal lit x = JString (lit x)"

definition members :: "(string \<times> json option) list \<Rightarrow> (string \<times> json) list" where
  "members xs = concat (map (\<lambda>(k, v). case v of None \<Rightarrow> [] | Some j \<Rightarrow> [(k, j)]) xs)"

subsection \<open>Decoders of the interfaces\<close>

definition decode_subscriber_attribute :: "json \<Rightarrow> subscriber_attribute option" where
  "decode_subscriber_attribute j =
     (case j of
        JObject obj \<Rightarrow>
          do {
            v \<leftarrow> req json_string (member obj ''value'');
            t \<leftarrow> req json_number (member obj ''updated_at_ms'');
            Some \<lparr>attribute_value = v, updated_at_ms = t\<rparr>
          }
      | _ \<Rightarrow> None)"

text \<open>
  The members of a JSON object as \<open>JSON.parse\<close> leaves them: a repeated key keeps the
  place of its first occurrence and the value of its last.
\<close>

definition parsed_members :: "(string \<times> json) list \<Rightarrow> (string \<times> json) list" where
  "parsed_members obj = foldl (\<lambda>acc (k, v). AList.update k v acc) [] obj"

definition decode_subscriber_attributes :: "json \<Rightarrow> subscriber_attributes option" where
  "decode_subscriber_attributes j =
     (case j of
        JObject obj \<Rightarrow>
          map_option (foldl (\<lambda>acc (k, a). DAList.update k a acc) DAList.empty)
            (those (map (\<lambda>(k, v). map_option (Pair k) (decode_subscriber_attribute v))
                     (parsed_members obj)))
      | _ \<Rightarrow> None)"

definition decode_base :: "json_lookup \<Rightarrow> base_revenue_cat_event option" where
  "decode_base g =
     do {
       i \<leftarrow> req json_string (g ''id'');
       a \<leftarrow> req json_string (g ''app_id'');
       u \<leftarrow> req json_string (g ''app_user_id'');
       ts \<leftarrow> req json_number (g ''event_timestamp_ms'');
       al \<leftarrow> opt (json_array json_string) (g ''aliases'');
       ou \<leftarrow> opt json_string (g ''original_app_user_id'');
       sa \<leftarrow> opt decode_subscriber_attributes (g ''subscriber_attributes'');
       st \<leftarrow> opt (json_literal store_of_literal) (g ''store'');
       Some \<lparr>event_id = i, app_id = a, app_user_id = u, event_timestamp_ms = ts, aliases = al,
             original_app_user_id = ou, subscriber_attributes = sa, store = st\<rparr>
     }"

definition decode_purchase :: "json_lookup \<Rightarrow> purchase_event_fields option" where
  "decode_purchase g =
     do {
       pid \<leftarrow> req json_string (g ''product_id'');
       pt \<leftarrow> req (json_literal period_type_of_literal) (g ''period_type'');
       pa \<leftarrow> req json_number (g ''purchased_at_ms'');
       ea \<leftarrow> opt json_number (g ''expiration_at_ms'');
       env \<leftarrow> req (json_literal environment_of_literal) (g ''environment'');
       eid \<leftarrow> opt_nullable json_string (g ''entitlement_id'');
       eids \<leftarrow> opt (json_array json_string) (g ''entitlement_ids'');
       po \<leftarrow> opt_nullable json_string (g ''presented_offering_id'');
       tid \<leftarrow> req json_string (g ''transaction_id'');
       otid \<leftarrow> req json_string (g ''original_transaction_id'');
       fam \<leftarrow> req json_bool (g ''is_family_share'');
       cc \<leftarrow> opt json_string (g ''country_code'');
       cur \<leftarrow> opt json_string (g ''currency'');
       pr \<leftarrow> opt json_number (g ''price'');
       ppc \<leftarrow> opt json_number (g ''price_in_purchased_currency'');
       thp \<leftarrow> opt_nullable json_number (g ''takehome_percentage'');
       oc \<leftarrow> opt_nullable json_string (g ''offer_code'');
       tax \<leftarrow> opt_nullable json_number (g ''tax_percentage'');
       com \<leftarrow> opt_nullable json_number (g ''commission_percentage'');
       rn \<leftarrow> opt_nullable json_number (g ''renewal_number'');
       md \<leftarrow> opt Some (g ''metadata'');
       Some \<lparr>product_id = pid, period_type = pt, purchased_at_ms = pa, expiration_at_ms = ea,
             environment = env, entitlement_id = eid, entitlement_ids = eids,
             presented_offering_id = po, transaction_id = tid, original_transaction_id = otid,
             is_family_share = fam, country_code = cc, currency = cur, price = pr,
             price_in_purchased_currency = ppc, takehome_percentage = thp, offer_code = oc,
             tax_percentage = tax, commission_percentage = com, renewal_number = rn,
             metadata = md\<rparr>
     }"

text \<open>
  \<open>InvoiceIssuanceEvent\<close>: its data members, and each member typed \<open>null\<close> present
  and null.
\<close>

definition invoice_null_keys :: "string list" where
  "invoice_null_keys =
     [''period_type'', ''expiration_at_ms'', ''entitlement_id'', ''entitlement_ids'',
      ''presented_offering_id'', ''transaction_id'', ''original_transaction_id'',
      ''takehome_percentage'', ''offer_code'', ''tax_percentage'', ''commission_percentage'',
      ''metadata'', ''renewal_number'']"

definition decode_invoice :: "json_lookup \<Rightarrow> invoice_issuance_fields option" where
  "decode_invoice g =
     do {
       pid \<leftarrow> req json_string (g ''product_id'');
       pa \<leftarrow> req json_number (g ''purchased_at_ms'');
       env \<leftarrow> req (json_literal environment_of_literal) (g ''environment'');
       fam \<leftarrow> req json_bool (g ''is_family_share'');
       cc \<leftarrow> opt json_string (g ''country_code'');
       cur \<leftarrow> opt json_string (g ''currency'');
       ppc \<leftarrow> opt json_number (g ''price_in_purchased_currency'');
       if list_all (\<lambda>k. g k = Some JNull) invoice_null_keys then
         Some \<lparr>invoice_product_id = pid, invoice_purchased_at_ms = pa, invoice_environment = env,
               invoice_is_family_share = fam, invoice_country_code = cc, invoice_currency = cur,
               invoice_price_in_purchased_currency = ppc\<rparr>
       else None
     }"

definition decode_virtual_currency :: "json \<Rightarrow> virtual_currency option" where
  "decode_virtual_currency j =
     (case j of
        JObject obj \<Rightarrow>
          do {
            c \<leftarrow> req json_string (member obj ''code'');
            n \<leftarrow> req json_string (member obj ''name'');
            d \<leftarrow> req json_string (member obj ''description'');
            Some \<lparr>currency_code = c, currency_name = n, currency_description = d\<rparr>
          }
      | _ \<Rightarrow> None)"

definition decode_adjustment :: "json \<Rightarrow> virtual_currency_adjustment option" where
  "decode_adjustment j =
     (case j of
        JObject obj \<Rightarrow>
          do {
            a \<leftarrow> req json_number (member obj ''amount'');
            c \<leftarrow> req decode_virtual_currency (member obj ''currency'');
            Some \<lparr>amount = a, adjustment_currency = c\<rparr>
          }
      | _ \<Rightarrow> None)"

definition decode_virtual_currency_transaction ::
  "json_lookup \<Rightarrow> virtual_currency_transaction_fields option" where
  "decode_virtual_currency_transaction g =
     do {
       adj \<leftarrow> req (json_array decode_adjustment) (g ''adjustments'');
       pdn \<leftarrow> opt json_string (g ''product_display_name'');
       pid \<leftarrow> req json_string (g ''product_id'');
       pe \<leftarrow> req (json_literal environment_of_literal) (g ''purchase_environment'');
       src \<leftarrow> req json_string (g ''source'');
       tid \<leftarrow> req json_string (g ''transaction_id'');
       vct \<leftarrow> req json_string (g ''virtual_currency_transaction_id'');
       Some \<lparr>adjustments = adj, product_display_name = pdn, vc_product_id = pid,
             purchase_environment = pe, source = src, vc_transaction_id = tid,
             virtual_currency_transaction_id = vct\<rparr>
     }"

text \<open>The interface the tag selects, read from the same object.\<close>

fun decode_variant :: "revenue_cat_event_type \<Rightarrow> json_lookup \<Rightarrow> revenue_cat_event option" where
  "decode_variant INITIAL_PURCHASE g =
     do { b \<leftarrow> decode_base g; p \<leftarrow> decode_purchase g; Some (Initial_Purchase_Event b p) }"
| "decode_variant RENEWAL g =
     do { b \<leftarrow> decode_base g; p \<leftarrow> decode_purchase g; Some (Renewal_Event b p) }"
| "decode_variant CANCELLATION g =
     do { b \<leftarrow> decode_base g; p \<leftarrow> decode_purchase g;
          r \<leftarrow> opt json_string (g ''cancel_reason''); Some (Cancellation_Event b p r) }"
| "decode_variant UNCANCELLATION g =
     do { b \<leftarrow> decode_base g; p \<leftarrow> decode_purchase g; Some (Uncancellation_Event b p) }"
| "decode_variant NON_RENEWING_PURCHASE g =
     do { b \<leftarrow> decode_base g; p \<leftarrow> decode_purchase g; Some (Non_Renewing_Purchase_Event b p) }"
| "decode_variant SUBSCRIPTION_PAUSED g =
     do { b \<leftarrow> decode_base g; p \<leftarrow> decode_purchase g;
          t \<leftarrow> opt json_number (g ''auto_resume_at_ms''); Some (Subscription_Paused_Event b p t) }"
| "decode_variant EXPIRATION g =
     do { b \<leftarrow> decode_base g; p \<leftarrow> decode_purchase g;
          r \<leftarrow> opt json_string (g ''expiration_reason''); Some (Expiration_Event b p r) }"
| "decode_variant PRODUCT_CHANGE g =
     do { b \<leftarrow> decode_base g; p \<leftarrow> decode_purchase g;
          x \<leftarrow> opt json_string (g ''old_product_id''); Some (Product_Change_Event b p x) }"
| "decode_variant BILLING_ISSUE g =
     do { b \<leftarrow> decode_base g; p \<leftarrow> decode_purchase g;
          t \<leftarrow> opt json_number (g ''grace_period_expiration_at_ms'');
          Some (Billing_Issue_Event b p t) }"
| "decode_variant REFUND g =
     do { b \<leftarrow> decode_base g; p \<leftarrow> decode_purchase g;
          r \<leftarrow> opt json_string (g ''refund_reason''); Some (Refund_Event b p r) }"
| "decode_variant REFUND_REVERSED g =
     do { b \<leftarrow> decode_base g; p \<leftarrow> decode_purchase g; Some (Refund_Reversed_Event b p) }"
| "decode_variant TRANSFER g =
     do { b \<leftarrow> decode_base g;
          f \<leftarrow> opt (json_array json_string) (g ''transferred_from'');
          t \<leftarrow> opt (json_array json_string) (g ''transferred_to'');
          Some (Transfer_Event b f t) }"
| "decode_variant SUBSCRIPTION_EXTENDED g =
     do { b \<leftarrow> decode_base g; p \<leftarrow> decode_purchase g;
          t \<leftarrow> req json_number (g ''new_expiration_at_ms'');
          Some (Subscription_Extended_Event b p t) }"
| "decode_variant TRIAL_STARTED g =
     do { b \<leftarrow> decode_base g; p \<leftarrow> decode_purchase g; Some (Trial_Started_Event b p) }"
| "decode_variant TRIAL_CANCELLED g =
     do { b \<leftarrow> decode_base g; p \<leftarrow> decode_purchase g; Some (Trial_Cancelled_Event b p) }"
| "decode_variant INVOICE_ISSUANCE g =
     do { b \<leftarrow> decode_base g; f \<leftarrow> decode_invoice g; Some (Invoice_Issuance_Event b f) }"
| "decode_variant TEMPORARY_ENTITLEMENT_GRANT g =
     do { b \<leftarrow> decode_base g; Some (Temporary_Entitlement_Grant_Event b) }"
| "decode_variant VIRTUAL_CURRENCY_TRANSACTION g =
     do { b \<leftarrow> decode_base g; v \<leftarrow> decode_virtual_currency_transaction g;
          Some (Virtual_Currency_Transaction_Event b v) }"

definition decode_event :: "json \<Rightarrow> revenue_cat_event option" where
  "decode_event j =
     (case j of
        JObject obj \<Rightarrow>
          (case req (json_literal event_type_of_literal) (member obj ''type'') of
             None \<Rightarrow> None
           | Some t \<Rightarrow> decode_variant t (member obj))
      | _ \<Rightarrow> None)"

definition decode_webhook_payload :: "json \<Rightarrow> revenue_cat_webhook_payload option" where
  "decode_webhook_payload j =
     (case j of
        JObject obj \<Rightarrow>
          do {
            e \<leftarrow> req decode_event (member obj ''event'');
            v \<leftarrow> req json_string (member obj ''api_version'');
            Some \<lparr>event = e, api_version = v\<rparr>
          }
      | _ \<Rightarrow> None)"

subsection \<open>Encoders of the interfaces\<close>

definition encode_subscriber_attribute :: "subscriber_attribute \<Rightarrow> json" where
  "encode_subscriber_attribute a =
     JObject [(''value'', JString (attribute_value a)), (''updated_at_ms'', JNumber (updated_at_ms a))]"

definition encode_subscriber_attributes :: "subscriber_attributes \<Rightarrow> json" where
  "encode_subscriber_attributes attrs =
     JObject (map (\<lambda>(k, a). (k, encode_subscriber_attribute a)) (DAList.impl_of attrs))"

definition encode_base :: "base_revenue_cat_event \<Rightarrow> (string \<times> json option) list" where
  "encode_base b =
     [(''id'', Some (JString (event_id b))),
      (''app_id'', Some (JString (app_id b))),
      (''app_user_id'', Some (JString (app_user_id b))),
      (''event_timestamp_ms'', Some (JNumber (event_timestamp_ms b))),
      (''aliases'', enc_opt json_strings (aliases b)),
      (''original_app_user_id'', enc_opt JString (original_app_user_id b)),
      (''subscriber_attributes'', enc_opt encode_subscriber_attributes (subscriber_attributes b)),
      (''store'', enc_opt (json_of_literal store_literal) (store b))]"

definition encode_purchase :: "purchase_event_fields \<Rightarrow> (string \<times> json option) list" where
  "encode_purchase p =
     [(''product_id'', Some (JString (product_id p))),
      (''period_type'', Some (json_of_literal period_type_literal (period_type p))),
      (''purchased_at_ms'', Some (JNumber (purchased_at_ms p))),
      (''expiration_at_ms'', enc_opt JNumber (expiration_at_ms p)),
      (''environment'', Some (json_of_literal environment_literal (environment p))),
      (''entitlement_id'', enc_nullable JString (entitlement_id p)),
      (''entitlement_ids'', enc_opt json_strings (entitlement_ids p)),
      (''presented_offering_id'', enc_nullable JString (presented_offering_id p)),
      (''transaction_id'', Some (JString (transaction_id p))),
      (''original_transaction_id'', Some (JString (original_transaction_id p))),
      (''is_family_share'', Some (JBool (is_family_share p))),
      (''country_code'', enc_opt JString (country_code p)),
      (''currency'', enc_opt JString (currency p)),
      (''price'', enc_opt JNumber (price p)),
      (''price_in_purchased_currency'', enc_opt JNumber (price_in_purchased_currency p)),
      (''takehome_percentage'', enc_nullable JNumber (takehome_percentage p)),
      (''offer_code'', enc_nullable JString (offer_code p)),
      (''tax_percentage'', enc_nullable JNumber (tax_percentage p)),
      (''commission_percentage'', enc_nullable JNumber (commission_percentage p)),
      (''renewal_number'', enc_nullable JNumber (renewal_number p)),
      (''metadata'', metadata p)]"


definition encode_invoice :: "invoice_issuance_fields \<Rightarrow> (string \<times> json option) list" where
  "encode_invoice f =
     [(''product_id'', Some (JString (invoice_product_id f))),
      (''purchased_at_ms'', Some (JNumber (invoice_purchased_at_ms f))),
      (''environment'', Some (json_of_literal environment_literal (invoice_environment f))),
      (''is_family_share'', Some (JBool (invoice_is_family_share f))),
      (''country_code'', enc_opt JString (invoice_country_code f)),
      (''currency'', enc_opt JString (invoice_currency f)),
      (''price_in_purchased_currency'', enc_opt JNumber (invoice_price_in_purchased_currency f))]
     @ map (\<lambda>k. (k, Some JNull)) invoice_null_keys"

definition encode_virtual_currency :: "virtual_currency \<Rightarrow> json" where
  "encode_virtual_currency c =
     JObject [(''code'', JString (currency_code c)), (''name'', JString (currency_name c)),
              (''description'', JString (currency_description c))]"

definition encode_adjustment :: "virtual_currency_adjustment \<Rightarrow> json" where
  "encode_adjustment a =
     JObject [(''amount'', JNumber (amount a)), (''currency'', encode_virtual_currency (adjustment_currency a))]"

definition encode_virtual_currency_transaction ::
  "virtual_currency_transaction_fields \<Rightarrow> (string \<times> json option) list" where
  "encode_virtual_currency_transaction v =
     [(''adjustments'', Some (JArray (map encode_adjustment (adjustments v)))),
      (''product_display_name'', enc_opt JString (product_display_name v)),
      (''product_id'', Some (JString (vc_product_id v))),
      (''purchase_environment'', Some (json_of_literal environment_literal (purchase_environment v))),
      (''source'', Some (JString (source v))),
      (''transaction_id'', Some (JString (vc_transaction_id v))),
      (''virtual_currency_transaction_id'', Some (JString (virtual_currency_transaction_id v)))]"

fun event_members :: "revenue_cat_event \<Rightarrow> (string \<times> json option) list" where
  "event_members (Initial_Purchase_Event b p) = encode_base b @ encode_purchase p"
| "event_members (Renewal_Event b p) = encode_base b @ encode_purchase p"
| "event_members (Cancellation_Event b p r) =
     encode_base b @ encode_purchase p @ [(''cancel_reason'', enc_opt JString r)]"
| "event_members (Uncancellation_Event b p) = encode_base b @ encode_purchase p"
| "event_members (Non_Renewing_Purchase_Event b p) = encode_base b @ encode_purchase p"
| "event_members (Subscription_Paused_Event b p t) =
     encode_base b @ encode_purchase p @ [(''auto_resume_at_ms'', enc_opt JNumber t)]"
| "event_members (Expiration_Event b p r) =
     encode_base b @ encode_purchase p @ [(''expiration_reason'', enc_opt JString r)]"
| "event_members (Product_Change_Event b p x) =
     encode_base b @ encode_purchase p @ [(''old_product_id'', enc_opt JString x)]"
| "event_members (Billing_Issue_Event b p t) =
     encode_base b @ encode_purchase p @ [(''grace_period_expiration_at_ms'', enc_opt JNumber t)]"
| "event_members (Refund_Event b p r) =
     encode_base b @ encode_purchase p @ [(''refund_reason'', enc_opt JString r)]"
| "event_members (Refund_Reversed_Event b p) = encode_base b @ encode_purchase p"
| "event_members (Transfer_Event b f t) =
     encode_base b @ [(''transferred_from'', enc_opt json_strings f),
                      (''transferred_to'', enc_opt json_strings t)]"
| "event_members (Subscription_Extended_Event b p t) =
     encode_base b @ encode_purchase p @ [(''new_expiration_at_ms'', Some (JNumber t))]"
| "event_members (Trial_Started_Event b p) = encode_base b @ encode_purchase p"
| "event_members (Trial_Cancelled_Event b p) = encode_base b @ encode_purchase p"
| "event_members (Invoice_Issuance_Event b f) = encode_base b @ encode_invoice f"
| "event_members (Temporary_Entitlement_Grant_Event b) = encode_base b"
| "event_members (Virtual_Currency_Transaction_Event b v) =
     encode_base b @ encode_virtual_currency_transaction v"

definition encode_event :: "revenue_cat_event \<Rightarrow> json" where
  "encode_event e =
     JObject (members ((''type'', Some (json_of_literal event_type_literal (event_type e)))
                       # event_members e))"

definition encode_webhook_payload :: "revenue_cat_webhook_payload \<Rightarrow> json" where
  "encode_webhook_payload w =
     JObject [(''event'', encode_event (event w)), (''api_version'', JString (api_version w))]"

subsection \<open>Reading back what was written\<close>

lemma map_of_rev_distinct:
  assumes "distinct (map fst ys)"
  shows "map_of (rev ys) = map_of ys"
proof
  fix k
  have d: "distinct (map fst (rev ys))" using assms by (simp add: rev_map [symmetric])
  show "map_of (rev ys) k = map_of ys k"
  proof (cases "map_of ys k")
    case None
    then have "k \<notin> fst ` set ys" by (simp add: map_of_eq_None_iff)
    then have "map_of (rev ys) k = None" by (simp add: map_of_eq_None_iff)
    with None show ?thesis by simp
  next
    case (Some v)
    then have "(k, v) \<in> set ys" by (rule map_of_SomeD)
    with d show ?thesis using Some by (simp add: map_of_eq_Some_iff)
  qed
qed

lemma set_members: "set (members xs) = {(k, j). (k, Some j) \<in> set xs}"
  by (auto simp: members_def split: option.splits)

lemma distinct_members: "distinct (map fst xs) \<Longrightarrow> distinct (map fst (members xs))"
proof (induction xs)
  case Nil
  then show ?case by (simp add: members_def)
next
  case (Cons x xs)
  obtain k v where x: "x = (k, v)" by (cases x)
  have "k \<notin> fst ` set (members xs)"
    using Cons.prems x by (force simp: set_members)
  with Cons x show ?case by (cases v) (auto simp: members_def)
qed

lemma member_members_in:
  assumes "distinct (map fst xs)" and "(k, v) \<in> set xs"
  shows "member (members xs) k = v"
proof -
  have d: "distinct (map fst (members xs))" using assms(1) by (rule distinct_members)
  then have m: "member (members xs) = map_of (members xs)"
    by (simp add: member_def map_of_rev_distinct)
  show ?thesis
  proof (cases v)
    case None
    have "k \<notin> fst ` set (members xs)"
    proof
      assume "k \<in> fst ` set (members xs)"
      then obtain j where "(k, Some j) \<in> set xs" by (auto simp: set_members)
      with assms None show False by (metis eq_key_imp_eq_value option.distinct(1))
    qed
    with m None show ?thesis by (simp add: map_of_eq_None_iff)
  next
    case (Some j)
    with assms(2) have "(k, j) \<in> set (members xs)" by (simp add: set_members)
    with d m Some show ?thesis by simp
  qed
qed

text \<open>Every member written in \<open>ys\<close> is read back from an object written from \<open>xs\<close>.\<close>

lemma member_members_all:
  "distinct (map fst xs) \<Longrightarrow> set ys \<subseteq> set xs \<Longrightarrow>
   list_all (\<lambda>(k, v). member (members xs) k = v) ys"
  by (auto simp: list_all_iff intro: member_members_in)

subsection \<open>Decoding what was encoded\<close>

lemma req_Some [simp]: "req f (Some j) = f j"
  by (simp add: req_def)

lemma those_map_inverse:
  "(\<And>y. f (g y) = Some y) \<Longrightarrow> those (map (\<lambda>y. f (g y)) xs) = Some xs"
  by (induction xs) auto

lemma json_array_map: "(\<And>y. f (g y) = Some y) \<Longrightarrow> json_array f (JArray (map g xs)) = Some xs"
  using those_map_inverse [of f g xs] by (simp add: comp_def)

lemma update_fresh: "k \<notin> fst ` set acc \<Longrightarrow> AList.update k v acc = acc @ [(k, v)]"
  by (induction acc) auto

lemma foldl_update_distinct:
  "distinct (map fst (acc @ xs)) \<Longrightarrow> foldl (\<lambda>acc (k, v). AList.update k v acc) acc xs = acc @ xs"
  by (induction xs arbitrary: acc) (auto simp: update_fresh)

lemma parsed_members_distinct: "distinct (map fst obj) \<Longrightarrow> parsed_members obj = obj"
  using foldl_update_distinct [of "[]" obj] by (simp add: parsed_members_def)

lemma impl_of_foldl_update:
  "DAList.impl_of (foldl (\<lambda>acc (k, a). DAList.update k a acc) al xs) =
     foldl (\<lambda>acc (k, a). AList.update k a acc) (DAList.impl_of al) xs"
  by (induction xs arbitrary: al) (auto simp: DAList.update.rep_eq)

lemma decode_subscriber_attributes_encode:
  "decode_subscriber_attributes (encode_subscriber_attributes attrs) = Some attrs"
proof -
  let ?enc = "map (\<lambda>(k, a). (k, encode_subscriber_attribute a)) (DAList.impl_of attrs)"
  have dec: "decode_subscriber_attribute (encode_subscriber_attribute a) = Some a" for a
    by (simp add: decode_subscriber_attribute_def encode_subscriber_attribute_def member_def)
  have those: "those (map (\<lambda>(k, v). map_option (Pair k) (decode_subscriber_attribute v))
          (map (\<lambda>(k, a). (k, encode_subscriber_attribute a)) xs)) = Some xs" for xs
    by (induction xs) (auto simp: dec)
  have dist: "distinct (map fst ?enc)"
    using impl_of_distinct [of attrs] by (simp add: case_prod_unfold comp_def)
  have fold: "foldl (\<lambda>acc (k, a). DAList.update k a acc) DAList.empty (DAList.impl_of attrs) = attrs"
    using foldl_update_distinct [of "[]" "DAList.impl_of attrs"]
    by (simp add: alist_eq_iff impl_of_foldl_update DAList.empty.rep_eq)
  show ?thesis
    unfolding decode_subscriber_attributes_def encode_subscriber_attributes_def
    by (simp only: json.case parsed_members_distinct [OF dist] those option.map fold)
qed

lemma decode_adjustment_encode: "decode_adjustment (encode_adjustment a) = Some a"
  by (simp add: decode_adjustment_def encode_adjustment_def decode_virtual_currency_def
      encode_virtual_currency_def member_def)

text \<open>Each member encoder is read back by its member decoder.\<close>

lemma opt_enc_opt:
  "(\<And>y. f (g y) = Some y) \<Longrightarrow> opt f (enc_opt g x) = Some x"
  by (cases x) (simp_all add: opt_def enc_opt_def)

lemma opt_nullable_enc_nullable:
  "(\<And>y. f (g y) = Some y) \<Longrightarrow> (\<And>y. g y \<noteq> JNull) \<Longrightarrow>
   opt_nullable f (enc_nullable g x) = Some x"
  by (cases x) (auto simp: opt_nullable_def enc_nullable_def split: nullable.split)

lemma json_literal_of_literal:
  "(\<And>y. table (lit y) = Some y) \<Longrightarrow> json_literal table (json_of_literal lit x) = Some x"
  by (simp add: json_literal_def json_of_literal_def)

lemma json_strings_inverse: "json_array json_string (json_strings xs) = Some xs"
  unfolding json_strings_def by (rule json_array_map) simp

lemma member_inverses [simp]:
  "opt json_string (enc_opt JString s) = Some s"
  "opt json_number (enc_opt JNumber n) = Some n"
  "opt (json_array json_string) (enc_opt json_strings ss) = Some ss"
  "opt decode_subscriber_attributes (enc_opt encode_subscriber_attributes sa) = Some sa"
  "opt_nullable json_string (enc_nullable JString ns) = Some ns"
  "opt_nullable json_number (enc_nullable JNumber nn) = Some nn"
  "opt (json_literal store_of_literal) (enc_opt (json_of_literal store_literal) st) = Some st"
  "json_literal period_type_of_literal (json_of_literal period_type_literal pt) = Some pt"
  "json_literal environment_of_literal (json_of_literal environment_literal env) = Some env"
  "json_literal event_type_of_literal (json_of_literal event_type_literal t) = Some t"
  "json_array decode_adjustment (JArray (map encode_adjustment adj)) = Some adj"
proof -
  show "opt json_string (enc_opt JString s) = Some s" by (rule opt_enc_opt) simp
  show "opt json_number (enc_opt JNumber n) = Some n" by (rule opt_enc_opt) simp
  show "opt (json_array json_string) (enc_opt json_strings ss) = Some ss"
    by (rule opt_enc_opt) (rule json_strings_inverse)
  show "opt decode_subscriber_attributes (enc_opt encode_subscriber_attributes sa) = Some sa"
    by (rule opt_enc_opt) (rule decode_subscriber_attributes_encode)
  show "opt_nullable json_string (enc_nullable JString ns) = Some ns"
    by (rule opt_nullable_enc_nullable) simp_all
  show "opt_nullable json_number (enc_nullable JNumber nn) = Some nn"
    by (rule opt_nullable_enc_nullable) simp_all
  show "opt (json_literal store_of_literal) (enc_opt (json_of_literal store_literal) st) = Some st"
    by (rule opt_enc_opt) (rule json_literal_of_literal, simp)
  show "json_literal period_type_of_literal (json_of_literal period_type_literal pt) = Some pt"
    by (rule json_literal_of_literal) simp
  show "json_literal environment_of_literal (json_of_literal environment_literal env) = Some env"
    by (rule json_literal_of_literal) simp
  show "json_literal event_type_of_literal (json_of_literal event_type_literal t) = Some t"
    by (rule json_literal_of_literal) simp
  show "json_array decode_adjustment (JArray (map encode_adjustment adj)) = Some adj"
    by (rule json_array_map) (rule decode_adjustment_encode)
qed

lemma those_adjustments [simp]:
  "those (map (decode_adjustment \<circ> encode_adjustment) adj) = Some adj"
  using those_map_inverse [of decode_adjustment encode_adjustment adj]
  by (simp add: comp_def decode_adjustment_encode)

lemma opt_Some_id [simp]: "opt Some x = Some x"
  by (cases x) (simp_all add: opt_def)

lemma decode_base_intro:
  "list_all (\<lambda>(k, v). g k = v) (encode_base b) \<Longrightarrow> decode_base g = Some b"
  by (simp add: encode_base_def decode_base_def)

lemma decode_purchase_intro:
  "list_all (\<lambda>(k, v). g k = v) (encode_purchase p) \<Longrightarrow> decode_purchase g = Some p"
  by (simp add: encode_purchase_def decode_purchase_def)

lemma decode_invoice_intro:
  "list_all (\<lambda>(k, v). g k = v) (encode_invoice f) \<Longrightarrow> decode_invoice g = Some f"
  by (simp add: encode_invoice_def decode_invoice_def invoice_null_keys_def)

lemma decode_virtual_currency_transaction_intro:
  "list_all (\<lambda>(k, v). g k = v) (encode_virtual_currency_transaction v) \<Longrightarrow>
   decode_virtual_currency_transaction g = Some v"
  by (simp add: encode_virtual_currency_transaction_def decode_virtual_currency_transaction_def)

lemma encode_keys [simp]:
  "map fst (encode_base b) =
     [''id'', ''app_id'', ''app_user_id'', ''event_timestamp_ms'', ''aliases'',
      ''original_app_user_id'', ''subscriber_attributes'', ''store'']"
  "map fst (encode_purchase p) =
     [''product_id'', ''period_type'', ''purchased_at_ms'', ''expiration_at_ms'', ''environment'',
      ''entitlement_id'', ''entitlement_ids'', ''presented_offering_id'', ''transaction_id'',
      ''original_transaction_id'', ''is_family_share'', ''country_code'', ''currency'', ''price'',
      ''price_in_purchased_currency'', ''takehome_percentage'', ''offer_code'', ''tax_percentage'',
      ''commission_percentage'', ''renewal_number'', ''metadata'']"
  "map fst (encode_invoice f) =
     [''product_id'', ''purchased_at_ms'', ''environment'', ''is_family_share'', ''country_code'',
      ''currency'', ''price_in_purchased_currency''] @ invoice_null_keys"
  "map fst (encode_virtual_currency_transaction v) =
     [''adjustments'', ''product_display_name'', ''product_id'', ''purchase_environment'',
      ''source'', ''transaction_id'', ''virtual_currency_transaction_id'']"
  by (simp_all add: encode_base_def encode_purchase_def encode_invoice_def
      encode_virtual_currency_transaction_def comp_def)

lemma decode_event_members:
  assumes keys: "distinct (map fst ((''type'', Some (json_of_literal event_type_literal t)) # xs))"
    and variant: "\<And>g. list_all (\<lambda>(k, v). g k = v) xs \<Longrightarrow> decode_variant t g = Some e"
  shows "decode_event (JObject (members ((''type'', Some (json_of_literal event_type_literal t)) # xs)))
         = Some e"
proof -
  let ?xs = "(''type'', Some (json_of_literal event_type_literal t)) # xs"
  have tag: "member (members ?xs) ''type'' = Some (json_of_literal event_type_literal t)"
    using keys by (rule member_members_in) simp
  have "list_all (\<lambda>(k, v). member (members ?xs) k = v) xs"
    using keys by (rule member_members_all) auto
  then have "decode_variant t (member (members ?xs)) = Some e" by (rule variant)
  with tag show ?thesis by (simp add: decode_event_def)
qed

lemma decode_encode_event: "decode_event (encode_event e) = Some e"
  by (cases e; simp only: encode_event_def event_type.simps event_members.simps;
      rule decode_event_members;
      auto dest!: decode_base_intro decode_purchase_intro decode_invoice_intro
        decode_virtual_currency_transaction_intro simp: invoice_null_keys_def)

lemma decode_variant_type: "decode_variant t g = Some e \<Longrightarrow> event_type e = t"
  by (cases t) (auto simp: bind_eq_Some_conv)

lemma decode_event_SomeE:
  assumes "decode_event j = Some e"
  obtains obj s where "j = JObject obj" and "member obj ''type'' = Some (JString s)"
    and "event_type_of_literal s = Some (event_type e)"
    and "decode_variant (event_type e) (member obj) = Some e"
proof -
  from assms obtain obj where j: "j = JObject obj"
    by (cases j) (simp_all add: decode_event_def)
  from assms j obtain t where t: "req (json_literal event_type_of_literal) (member obj ''type'') = Some t"
    and v: "decode_variant t (member obj) = Some e"
    by (auto simp: decode_event_def split: option.splits)
  from v have te: "event_type e = t" by (rule decode_variant_type)
  from t obtain jt where jt: "member obj ''type'' = Some jt" and "json_literal event_type_of_literal jt = Some t"
    by (auto simp: req_def bind_eq_Some_conv)
  then obtain s where "jt = JString s" and "event_type_of_literal s = Some t"
    by (cases jt) (auto simp: json_literal_def)
  with j jt v te show ?thesis by (intro that) auto
qed


text \<open>
  C16: an \<open>InvoiceIssuanceEvent\<close> is accepted only when each of its members typed
  \<open>null\<close> is present and null.
\<close>

theorem decode_invoice_nulls:
  "decode_event j = Some (Invoice_Issuance_Event b f) \<Longrightarrow>
   \<exists>obj. j = JObject obj \<and> list_all (\<lambda>k. member obj k = Some JNull) invoice_null_keys"
proof -
  assume "decode_event j = Some (Invoice_Issuance_Event b f)"
  then obtain obj s where "j = JObject obj"
    and "decode_variant INVOICE_ISSUANCE (member obj) = Some (Invoice_Issuance_Event b f)"
    by (rule decode_event_SomeE) simp
  then show ?thesis
    by (auto simp: decode_invoice_def bind_eq_Some_conv split: if_splits)
qed

text \<open>
  C14: the webhook payload \<open>{event, api_version}\<close> is read back from the JSON it is
  written as, for every event variant.
\<close>

theorem decode_encode_webhook_payload:
  "decode_webhook_payload (encode_webhook_payload w) = Some w"
  by (simp add: decode_webhook_payload_def encode_webhook_payload_def member_def
      decode_encode_event)

subsection \<open>Missing members\<close>

lemma decode_base_missing:
  "k \<in> {''id'', ''app_id'', ''app_user_id'', ''event_timestamp_ms''} \<Longrightarrow> g k = None \<Longrightarrow>
   decode_base g = None"
  by (auto simp: decode_base_def req_def)

lemma decode_variant_no_base: "decode_base g = None \<Longrightarrow> decode_variant t g = None"
  by (cases t) simp_all

lemma decode_purchase_missing:
  "k \<in> {''product_id'', ''period_type'', ''purchased_at_ms'', ''environment'', ''transaction_id'',
        ''original_transaction_id'', ''is_family_share''} \<Longrightarrow> g k = None \<Longrightarrow>
   decode_purchase g = None"
  by (auto simp: decode_purchase_def req_def)

lemma decode_variant_no_purchase:
  "decode_purchase g = None \<Longrightarrow>
   t \<notin> {TRANSFER, INVOICE_ISSUANCE, TEMPORARY_ENTITLEMENT_GRANT, VIRTUAL_CURRENCY_TRANSACTION} \<Longrightarrow>
   decode_variant t g = None"
  by (cases t) (simp_all add: bind_eq_None_conv)

lemma decode_event_typed:
  "member obj ''type'' = Some (JString (event_type_literal t)) \<Longrightarrow>
   decode_event (JObject obj) = decode_variant t (member obj)"
  by (simp add: decode_event_def json_literal_def)

text \<open>
  C18: every event variant extends \<open>BaseRevenueCatEvent\<close>, so an object without one
  of its required members \<open>id\<close>, \<open>app_id\<close>, \<open>app_user_id\<close>,
  \<open>event_timestamp_ms\<close> is rejected whatever its \<open>type\<close>.
\<close>

theorem decode_event_requires_base:
  "k \<in> {''id'', ''app_id'', ''app_user_id'', ''event_timestamp_ms''} \<Longrightarrow> member obj k = None \<Longrightarrow>
   decode_event (JObject obj) = None"
  by (simp add: decode_event_def decode_variant_no_base decode_base_missing split: option.split)

text \<open>
  C19: the fourteen event interfaces that extend \<open>PurchaseEventFields\<close> reject an object
  without one of its required members \<open>product_id\<close>, \<open>period_type\<close>,
  \<open>purchased_at_ms\<close>, \<open>environment\<close>, \<open>transaction_id\<close>,
  \<open>original_transaction_id\<close>, \<open>is_family_share\<close>.
\<close>

theorem decode_event_requires_purchase:
  assumes "t \<notin> {TRANSFER, INVOICE_ISSUANCE, TEMPORARY_ENTITLEMENT_GRANT, VIRTUAL_CURRENCY_TRANSACTION}"
    and "member obj ''type'' = Some (JString (event_type_literal t))"
    and "k \<in> {''product_id'', ''period_type'', ''purchased_at_ms'', ''environment'', ''transaction_id'',
        ''original_transaction_id'', ''is_family_share''}"
    and "member obj k = None"
  shows "decode_event (JObject obj) = None"
proof -
  from assms(3,4) have "decode_purchase (member obj) = None" by (rule decode_purchase_missing)
  then have "decode_variant t (member obj) = None"
    using assms(1) by (rule decode_variant_no_purchase)
  with assms(2) show ?thesis by (simp add: decode_event_typed)
qed

end
