(* ===== verification/Veo_Config.thy ===== *)
theory Veo_Config
  imports Prelude
begin

text \<open>
  \<open>GoogleCloudConfig\<close> of \<open>src/swift_config.swift\<close> (the proxy's base URL, the
  project and region, the \<open>VeoModel\<close> enumeration with its raw values), and the
  types of the iOS app that the adapter reads or throws but that this repository does
  not contain: \<open>VeoError\<close> and the request \<open>VeoVideoGenerationRequest\<close> with its
  instances and parameters.  The latter are modelled from the spec (section 4.2)
  and from the fields the adapter reads.  Fields the adapter reads with \<open>if let\<close>
  are optional; the fields it assigns directly into the \<open>[String: Any]\<close> body are
  optional too, so that the model covers both possible declarations: assigning an
  absent optional through a dictionary subscript removes the key, which is
  exactly what the map update \<open>m(k := v)\<close> does.
\<close>

subsection \<open>GoogleCloudConfig\<close>

definition base_url :: string where
  "base_url = ''http://localhost:5000''"

definition project_id :: string where
  "project_id = ''daring-runway-465515-i2''"

definition region :: string where
  "region = ''us-central1''"

datatype veo_model = veo2 | veo3 | veo3Fast

primrec veo_model_raw_value :: "veo_model \<Rightarrow> string" where
  "veo_model_raw_value veo2 = ''veo-2.0-generate-001''"
| "veo_model_raw_value veo3 = ''veo-3.0-generate-preview''"
| "veo_model_raw_value veo3Fast = ''veo-3.0-fast-generate-001''"

subsection \<open>Types of the app the adapter uses\<close>

record veo_error =
  error :: string
  message :: string

record veo_image =
  bytesBase64Encoded :: "string option"
  mimeType :: "string option"

text \<open>\<open>instance.image\<close> is \<open>instance_image\<close>: \<open>image\<close> is HOL's set image.\<close>

record veo_instance =
  prompt :: "string option"
  instance_image :: "veo_image option"

record veo_parameters =
  aspectRatio :: "string option"
  durationSeconds :: "int option"
  enhancePrompt :: "bool option"
  generateAudio :: "bool option"
  personGeneration :: "string option"
  sampleCount :: "int option"
  negativePrompt :: "string option"
  seed :: "int option"
  storageUri :: "string option"

record veo_video_generation_request =
  instances :: "veo_instance list"
  parameters :: "veo_parameters option"

end
