(* ===== verification/Swift_Text.thy ===== *)
theory Swift_Text
  imports Prelude
begin

text \<open>
  The two pieces of the Swift runtime (not code of this repository) that the proxy
  adapter relies on when it builds an error message: the decimal description of an \<open>Int\<close> that string interpolation
  \<open>"\(statusCode)"\<close> produces, and \<open>String(data:encoding: .utf8)\<close>, which reads
  a response body as text or fails.  A Swift \<open>String\<close> is modelled by its UTF-8 code
  units: \<open>string\<close> is a list of 8-bit \<open>char\<close>s, and a body is readable exactly when
  its bytes are well-formed UTF-8 (RFC 3629, Unicode Table 3-7: no overlong forms, no
  surrogates, nothing above U+10FFFF).  The decimal parser \<open>parse_int\<close> is the
  inverse used to show that the message keeps the status code.  The leading byte-order
  mark Foundation may strip is not modelled.
\<close>

subsection \<open>Decimal description of integers\<close>

definition digit_char :: "nat \<Rightarrow> char" where
  "digit_char d = char_of (48 + d)"

fun decimal_digits :: "nat \<Rightarrow> string" where
  "decimal_digits n =
     (if n < 10 then [digit_char n] else decimal_digits (n div 10) @ [digit_char (n mod 10)])"

declare decimal_digits.simps [simp del]

definition int_description :: "int \<Rightarrow> string" where
  "int_description i =
     (if i < 0 then CHR ''-'' # decimal_digits (nat (- i)) else decimal_digits (nat i))"

definition is_digit :: "char \<Rightarrow> bool" where
  "is_digit c \<longleftrightarrow> 48 \<le> (of_char c :: nat) \<and> (of_char c :: nat) \<le> 57"

definition digits_value :: "string \<Rightarrow> nat" where
  "digits_value ds = foldl (\<lambda>n c. 10 * n + (of_char c - 48)) 0 ds"

definition parse_int :: "string \<Rightarrow> int option" where
  "parse_int s =
     (case s of
        [] \<Rightarrow> None
      | c # ds \<Rightarrow>
          if c = CHR ''-'' then
            (if ds \<noteq> [] \<and> list_all is_digit ds then Some (- int (digits_value ds)) else None)
          else if list_all is_digit s then Some (int (digits_value s)) else None)"

subsection \<open>UTF-8\<close>

definition is_continuation :: "byte \<Rightarrow> bool" where
  "is_continuation b \<longleftrightarrow> 0x80 \<le> b \<and> b \<le> 0xBF"

text \<open>The admissible second byte of a three- and a four-byte sequence (Table 3-7).\<close>

definition second_of_three :: "byte \<Rightarrow> byte \<Rightarrow> bool" where
  "second_of_three b c =
     (if b = 0xE0 then 0xA0 \<le> c \<and> c \<le> 0xBF
      else if b = 0xED then 0x80 \<le> c \<and> c \<le> 0x9F
      else is_continuation c)"

definition second_of_four :: "byte \<Rightarrow> byte \<Rightarrow> bool" where
  "second_of_four b c =
     (if b = 0xF0 then 0x90 \<le> c \<and> c \<le> 0xBF
      else if b = 0xF4 then 0x80 \<le> c \<and> c \<le> 0x8F
      else is_continuation c)"

text \<open>
  The number of bytes of the sequence a lead byte opens (0 for a byte that cannot
  start one: a continuation byte, \<open>C0\<close>, \<open>C1\<close>, \<open>F5\<close>..\<open>FF\<close>), and the check of
  the bytes that follow it.
\<close>

definition utf8_width :: "byte \<Rightarrow> nat" where
  "utf8_width b =
     (if b < 0x80 then 1
      else if 0xC2 \<le> b \<and> b \<le> 0xDF then 2
      else if 0xE0 \<le> b \<and> b \<le> 0xEF then 3
      else if 0xF0 \<le> b \<and> b \<le> 0xF4 then 4
      else 0)"

fun utf8_tail_ok :: "byte \<Rightarrow> bytes \<Rightarrow> bool" where
  "utf8_tail_ok b [] = True"
| "utf8_tail_ok b [c] = is_continuation c"
| "utf8_tail_ok b [c1, c2] = (second_of_three b c1 \<and> is_continuation c2)"
| "utf8_tail_ok b [c1, c2, c3] =
     (second_of_four b c1 \<and> is_continuation c2 \<and> is_continuation c3)"
| "utf8_tail_ok b _ = False"

fun utf8_valid :: "bytes \<Rightarrow> bool" where
  "utf8_valid [] = True"
| "utf8_valid (b # bs) =
     (0 < utf8_width b \<and> utf8_width b - 1 \<le> length bs \<and>
      utf8_tail_ok b (take (utf8_width b - 1) bs) \<and>
      utf8_valid (drop (utf8_width b - 1) bs))"

definition char_of_byte :: "byte \<Rightarrow> char" where
  "char_of_byte b = char_of (unat b)"

definition byte_of_char :: "char \<Rightarrow> byte" where
  "byte_of_char c = of_nat (of_char c)"

text \<open>\<open>String(data:encoding: .utf8)\<close>: the text of the bytes, or \<open>nil\<close>.\<close>

definition utf8_string :: "bytes \<Rightarrow> string option" where
  "utf8_string data = (if utf8_valid data then Some (map char_of_byte data) else None)"

text \<open>\<open>s.data(using: .utf8)\<close>: the UTF-8 code units of a string.\<close>

definition utf8_data :: "string \<Rightarrow> bytes" where
  "utf8_data s = map byte_of_char s"

subsection \<open>Decimal description: digits and round trip\<close>

lemma of_char_digit_char: "d < 10 \<Longrightarrow> of_char (digit_char d) = 48 + d"
  by (simp add: digit_char_def)

lemma is_digit_digit_char: "d < 10 \<Longrightarrow> is_digit (digit_char d)"
  by (simp add: is_digit_def of_char_digit_char)

lemma decimal_digits_not_Nil [simp]: "decimal_digits n \<noteq> []"
  by (subst decimal_digits.simps) simp

lemma decimal_digits_all_digits: "list_all is_digit (decimal_digits n)"
proof (induction n rule: decimal_digits.induct)
  case (1 n)
  then show ?case
    by (subst decimal_digits.simps) (simp add: is_digit_digit_char)
qed

lemma digits_value_snoc:
  "digits_value (ds @ [c]) = 10 * digits_value ds + (of_char c - 48)"
  by (simp add: digits_value_def)

lemma digits_value_decimal_digits [simp]: "digits_value (decimal_digits n) = n"
proof (induction n rule: decimal_digits.induct)
  case (1 n)
  show ?case
  proof (cases "n < 10")
    case True
    then show ?thesis
      by (subst decimal_digits.simps) (simp add: digits_value_def of_char_digit_char)
  next
    case False
    with "1.IH" have "digits_value (decimal_digits (n div 10)) = n div 10" by simp
    with False show ?thesis
      by (subst decimal_digits.simps) (simp add: digits_value_snoc of_char_digit_char)
  qed
qed

lemma is_digit_not_minus: "is_digit c \<Longrightarrow> c \<noteq> CHR ''-''"
  by (auto simp: is_digit_def)

lemma is_digit_not_space: "is_digit c \<Longrightarrow> c \<noteq> CHR '' ''"
  by (auto simp: is_digit_def)

lemma int_description_not_Nil [simp]: "int_description i \<noteq> []"
  by (simp add: int_description_def)

lemma int_description_no_space: "CHR '' '' \<notin> set (int_description i)"
  using decimal_digits_all_digits [of "nat (- i)"] decimal_digits_all_digits [of "nat i"]
  by (auto simp: int_description_def list_all_iff dest: is_digit_not_space)

text \<open>Reading back the decimal description of any \<open>Int\<close> gives the \<open>Int\<close>.\<close>

lemma parse_int_description [simp]: "parse_int (int_description i) = Some i"
proof (cases "i < 0")
  case True
  then show ?thesis
    using decimal_digits_all_digits [of "nat (- i)"]
    by (simp add: int_description_def parse_int_def)
next
  case False
  obtain c ds where cds: "decimal_digits (nat i) = c # ds"
    by (cases "decimal_digits (nat i)") auto
  have all: "list_all is_digit (c # ds)"
    using decimal_digits_all_digits [of "nat i"] cds by simp
  then have "c \<noteq> CHR ''-''" by (simp add: is_digit_not_minus)
  moreover have "digits_value (c # ds) = nat i"
    using digits_value_decimal_digits [of "nat i"] cds by simp
  ultimately show ?thesis
    using False cds all by (simp add: int_description_def parse_int_def)
qed

subsection \<open>UTF-8: validity and the text view of bytes\<close>

lemma char_of_byte_inverse [simp]: "byte_of_char (char_of_byte b) = b"
proof -
  have "unat b < 256" using unsigned_less [of b] by simp
  then show ?thesis by (simp add: byte_of_char_def char_of_byte_def)
qed

lemma byte_of_char_inverse [simp]: "char_of_byte (byte_of_char c) = c"
proof -
  have "of_char c < (256::nat)" by (rule nat_of_char_less_256)
  then have "unat (of_nat (of_char c) :: byte) = of_char c"
    by (simp add: unat_of_nat)
  then show ?thesis by (simp add: byte_of_char_def char_of_byte_def)
qed

lemma utf8_valid_append:
  "utf8_valid xs \<Longrightarrow> utf8_valid ys \<Longrightarrow> utf8_valid (xs @ ys)"
proof (induction xs rule: utf8_valid.induct)
  case 1
  then show ?case by simp
next
  case (2 b bs)
  let ?k = "utf8_width b - 1"
  from "2.prems"(1) have k: "?k \<le> length bs" and ok: "utf8_tail_ok b (take ?k bs)"
    and w: "0 < utf8_width b" and rest: "utf8_valid (drop ?k bs)"
    by simp_all
  from rest "2.prems"(2) have "utf8_valid (drop ?k bs @ ys)"
    by (rule "2.IH")
  with k ok w show ?case by simp
qed

lemma utf8_width_ascii: "b < 0x80 \<Longrightarrow> utf8_width b = 1"
  by (simp add: utf8_width_def)

lemma utf8_valid_ascii: "(\<forall>b \<in> set bs. b < 0x80) \<Longrightarrow> utf8_valid bs"
  by (induction bs) (auto simp: utf8_width_ascii)

text \<open>The text read from a body is the body: its UTF-8 code units are the bytes.\<close>

lemma utf8_data_utf8_string:
  "utf8_string data = Some s \<Longrightarrow> utf8_data s = data"
  by (auto simp: utf8_string_def utf8_data_def comp_def split: if_splits)

lemma utf8_string_utf8_data:
  "utf8_valid (utf8_data s) \<Longrightarrow> utf8_string (utf8_data s) = Some s"
  by (simp add: utf8_string_def utf8_data_def comp_def)

lemma utf8_data_append [simp]: "utf8_data (xs @ ys) = utf8_data xs @ utf8_data ys"
  by (simp add: utf8_data_def)

text \<open>Text made of ASCII characters is well-formed UTF-8.\<close>

lemma byte_of_char_ascii: "(of_char c :: nat) < 128 \<Longrightarrow> byte_of_char c < 0x80"
  by (simp add: byte_of_char_def word_less_nat_alt unat_of_nat)

lemma utf8_valid_ascii_text:
  "\<forall>c \<in> set s. (of_char c :: nat) < 128 \<Longrightarrow> utf8_valid (utf8_data s)"
  by (rule utf8_valid_ascii) (auto simp: utf8_data_def byte_of_char_ascii)

lemma int_description_ascii: "\<forall>c \<in> set (int_description i). (of_char c :: nat) < 128"
proof -
  have "\<forall>c \<in> set (decimal_digits n). (of_char c :: nat) < 128" for n
    using decimal_digits_all_digits [of n] by (auto simp: list_all_iff is_digit_def)
  then show ?thesis by (simp add: int_description_def)
qed

lemma utf8_valid_int_description: "utf8_valid (utf8_data (int_description i))"
  by (rule utf8_valid_ascii_text) (rule int_description_ascii)

lemma utf8_valid_utf8_string:
  "utf8_string data = Some s \<Longrightarrow> utf8_valid (utf8_data s)"
  by (simp add: utf8_data_utf8_string) (simp add: utf8_string_def split: if_splits)

end
