(* ===== verification/Veo_Proxy.thy ===== *)
theory Veo_Proxy
  imports Veo_Config Swift_Text
begin

text \<open>
  The request adapter of \<open>src/swift_config.swift\<close>: the extension of \<open>VeoAPIService\<close>
  with \<open>performRequestViaProxy\<close>, \<open>performSimplifiedRequest\<close> and
  \<open>performCheckOperation\<close>.  The platform calls the adapter makes are the fields of
  an environment record, the interface between the adapter and Foundation:
  \<^item> \<open>url_of_string\<close> is \<open>URL(string:)\<close>, \<open>None\<close> for a string it rejects;
  \<^item> \<open>encode\<close> is \<open>JSONEncoder().encode\<close> on the generic body \<open>B\<close>, which can throw;
  \<^item> \<open>as_generation_request\<close> is the cast \<open>body as? VeoVideoGenerationRequest\<close>;
  \<^item> \<open>data_for\<close> is \<open>URLSession.shared.data(for:)\<close>, which throws or gives the
    response's bytes and its \<open>URLResponse\<close>;
  \<^item> \<open>decode\<close> is \<open>JSONDecoder().decode(T.self, from:)\<close>, which can throw.
  Every \<open>throw\<close> and every error a \<open>try\<close> propagates is a \<open>failure\<close> in the left of
  the result.  Each call also returns the list of requests it handed to the session,
  so that "no request before the URL is built" and "one round trip, no retry" are
  statements about the model.  \<open>endpoint.contains(s)\<close> is \<open>sublist s endpoint\<close>
  (contiguous substring).
\<close>

type_synonym url = string

text \<open>
  The body of a request: a \<open>[String: Any]\<close> dictionary serialised by
  \<open>JSONSerialization\<close> (its key order is unspecified, so the dictionary is kept), or
  the JSON that \<open>JSONEncoder\<close> produced.
\<close>

datatype http_body =
    Json_Object "string \<rightharpoonup> json"
  | Encoded_Json json

record url_request =
  url :: url
  httpMethod :: string
  headers :: "string \<rightharpoonup> string"
  httpBody :: "http_body option"

datatype url_response = HTTPURLResponse (statusCode: int) | Non_HTTP_Response

datatype failure =
    Veo_Failure veo_error
  | Encoding_Failure string
  | Transport_Failure string
  | Decoding_Failure string

record ('b, 't) veo_env =
  url_of_string :: "string \<Rightarrow> url option"
  encode :: "'b \<Rightarrow> string + json"
  as_generation_request :: "'b \<Rightarrow> veo_video_generation_request option"
  data_for :: "url_request \<Rightarrow> string + (bytes \<times> url_response)"
  decode :: "bytes \<Rightarrow> string + 't"

type_synonym 't outcome = "(failure + 't) \<times> url_request list"

subsection \<open>Building a request\<close>

text \<open>\<open>URLRequest(url:)\<close>: a GET request with no header and no body.\<close>

definition url_request_init :: "url \<Rightarrow> url_request" where
  "url_request_init u = \<lparr>url = u, httpMethod = ''GET'', headers = Map.empty, httpBody = None\<rparr>"

text \<open>\<open>var request = URLRequest(url: url)\<close>, the method, the JSON content type.\<close>

definition json_request :: "url \<Rightarrow> string \<Rightarrow> url_request" where
  "json_request u http_method =
     (let request = url_request_init u;
          request = request\<lparr>httpMethod := http_method\<rparr>
      in request\<lparr>headers := (headers request)(''Content-Type'' \<mapsto> ''application/json'')\<rparr>)"

subsection \<open>Errors\<close>

definition invalid_url_error :: veo_error where
  "invalid_url_error = \<lparr>error = ''Invalid URL'', message = ''Failed to construct URL''\<rparr>"

definition invalid_response_error :: veo_error where
  "invalid_response_error = \<lparr>error = ''Invalid response'', message = ''Failed to get HTTP response''\<rparr>"

definition status_message :: "int \<Rightarrow> string \<Rightarrow> string" where
  "status_message code msg = ''Status code: '' @ int_description code @ '' - '' @ msg"

definition http_error :: "int \<Rightarrow> bytes \<Rightarrow> veo_error" where
  "http_error code data =
     (let errorMessage = (case utf8_string data of Some s \<Rightarrow> s | None \<Rightarrow> ''Unknown error'')
      in \<lparr>error = ''HTTP Error'', message = status_message code errorMessage\<rparr>)"

subsection \<open>Sending a request and reading the response\<close>

text \<open>The response handling every branch repeats after \<open>URLSession.shared.data(for:)\<close>.\<close>

definition handle_response :: "('b, 't) veo_env \<Rightarrow> bytes \<Rightarrow> url_response \<Rightarrow> failure + 't" where
  "handle_response env data response =
     (case response of
        Non_HTTP_Response \<Rightarrow> Inl (Veo_Failure invalid_response_error)
      | HTTPURLResponse code \<Rightarrow>
          if code = 200 then
            (case decode env data of Inl e \<Rightarrow> Inl (Decoding_Failure e) | Inr v \<Rightarrow> Inr v)
          else Inl (Veo_Failure (http_error code data)))"

definition send :: "('b, 't) veo_env \<Rightarrow> url_request \<Rightarrow> 't outcome" where
  "send env request =
     (case data_for env request of
        Inl e \<Rightarrow> (Inl (Transport_Failure e), [request])
      | Inr (data, response) \<Rightarrow> (handle_response env data response, [request]))"

text \<open>\<open>if let body = body { request.httpBody = try JSONEncoder().encode(body) }\<close>, then send.\<close>

definition send_encoded :: "('b, 't) veo_env \<Rightarrow> url_request \<Rightarrow> 'b option \<Rightarrow> 't outcome" where
  "send_encoded env request body =
     (case body of
        None \<Rightarrow> send env request
      | Some b \<Rightarrow>
          (case encode env b of
             Inl e \<Rightarrow> (Inl (Encoding_Failure e), [])
           | Inr j \<Rightarrow> send env (request\<lparr>httpBody := Some (Encoded_Json j)\<rparr>)))"

subsection \<open>The simplified generation body\<close>

definition instance_fields :: "veo_instance \<Rightarrow> (string \<rightharpoonup> json) \<Rightarrow> (string \<rightharpoonup> json)" where
  "instance_fields inst body =
     (let body = (case prompt inst of None \<Rightarrow> body | Some p \<Rightarrow> body(''prompt'' \<mapsto> JString p))
      in case instance_image inst of
           None \<Rightarrow> body
         | Some img \<Rightarrow>
             (case bytesBase64Encoded img of
                None \<Rightarrow> body
              | Some base64 \<Rightarrow>
                  body(''image'' \<mapsto> JString base64,
                       ''imageMimeType'' := map_option JString (mimeType img))))"

definition parameter_fields :: "veo_parameters \<Rightarrow> (string \<rightharpoonup> json) \<Rightarrow> (string \<rightharpoonup> json)" where
  "parameter_fields params body =
     (let body = body(''aspectRatio'' := map_option JString (aspectRatio params),
                      ''durationSeconds'' := map_option (JNumber \<circ> of_int) (durationSeconds params),
                      ''enhancePrompt'' := map_option JBool (enhancePrompt params),
                      ''generateAudio'' := map_option JBool (generateAudio params),
                      ''personGeneration'' := map_option JString (personGeneration params),
                      ''sampleCount'' := map_option (JNumber \<circ> of_int) (sampleCount params));
          body = (case negativePrompt params of None \<Rightarrow> body
                  | Some negative_prompt \<Rightarrow> body(''negativePrompt'' \<mapsto> JString negative_prompt));
          body = (case seed params of None \<Rightarrow> body
                  | Some seed_value \<Rightarrow> body(''seed'' \<mapsto> JNumber (of_int seed_value)))
      in case storageUri params of None \<Rightarrow> body
         | Some storage_uri \<Rightarrow> body(''storageUri'' \<mapsto> JString storage_uri))"

definition simplified_body :: "veo_video_generation_request \<Rightarrow> (string \<rightharpoonup> json)" where
  "simplified_body veoRequest =
     (let simplifiedBody = Map.empty;
          simplifiedBody = (case instances veoRequest of
                              [] \<Rightarrow> simplifiedBody
                            | inst # _ \<Rightarrow> instance_fields inst simplifiedBody)
      in case parameters veoRequest of
           None \<Rightarrow> simplifiedBody
         | Some params \<Rightarrow> parameter_fields params simplifiedBody)"

subsection \<open>The three request functions\<close>

definition performSimplifiedRequest :: "('b, 't) veo_env \<Rightarrow> 'b option \<Rightarrow> 't outcome" where
  "performSimplifiedRequest env body =
     (case url_of_string env (base_url @ ''/generate-video'') of
        None \<Rightarrow> (Inl (Veo_Failure invalid_url_error), [])
      | Some u \<Rightarrow>
          (let request = json_request u ''POST'';
               request = (case Option.bind body (as_generation_request env) of
                            None \<Rightarrow> request
                          | Some veoRequest \<Rightarrow>
                              request\<lparr>httpBody := Some (Json_Object (simplified_body veoRequest))\<rparr>)
           in send env request))"

definition performCheckOperation :: "('b, 't) veo_env \<Rightarrow> 'b option \<Rightarrow> 't outcome" where
  "performCheckOperation env body =
     (case url_of_string env (base_url @ ''/check-operation'') of
        None \<Rightarrow> (Inl (Veo_Failure invalid_url_error), [])
      | Some u \<Rightarrow> send_encoded env (json_request u ''POST'') body)"

definition performRequestViaProxy ::
  "('b, 't) veo_env \<Rightarrow> string \<Rightarrow> string \<Rightarrow> 'b option \<Rightarrow> 't outcome" where
  "performRequestViaProxy env endpoint http_method body =
     (if sublist '':predictLongRunning'' endpoint then performSimplifiedRequest env body
      else if sublist '':fetchPredictOperation'' endpoint then performCheckOperation env body
      else
        (case url_of_string env (base_url @ endpoint) of
           None \<Rightarrow> (Inl (Veo_Failure invalid_url_error), [])
         | Some u \<Rightarrow> send_encoded env (json_request u http_method) body))"

subsection \<open>The contract of the adapter\<close>

text \<open>
  What the spec (sections 4.2, 5 and 6) promises of one call, stated without the
  adapter's code: the path and the method each operation is sent with, and
  \<open>round_trip\<close>: if the target URL cannot be built the call fails with
  "Invalid URL" and sends nothing; otherwise it sends at most one request, to
  that URL, with that method and a JSON content type, and its result is the
  transport error or the handling of that request's response.  It sends nothing
  only when encoding the caller's body threw.
\<close>

definition proxy_path :: "string \<Rightarrow> string" where
  "proxy_path endpoint =
     (if sublist '':predictLongRunning'' endpoint then ''/generate-video''
      else if sublist '':fetchPredictOperation'' endpoint then ''/check-operation''
      else endpoint)"

definition proxy_method :: "string \<Rightarrow> string \<Rightarrow> string" where
  "proxy_method endpoint http_method =
     (if sublist '':predictLongRunning'' endpoint \<or> sublist '':fetchPredictOperation'' endpoint
      then ''POST'' else http_method)"

definition round_trip ::
  "('b, 't) veo_env \<Rightarrow> string \<Rightarrow> string \<Rightarrow> 'b option \<Rightarrow> 't outcome \<Rightarrow> bool" where
  "round_trip env target http_method body out \<longleftrightarrow>
     (case url_of_string env target of
        None \<Rightarrow> out = (Inl (Veo_Failure invalid_url_error), [])
      | Some u \<Rightarrow>
          (case snd out of
             [] \<Rightarrow> (\<exists>b e. body = Some b \<and> encode env b = Inl e \<and> fst out = Inl (Encoding_Failure e))
           | [request] \<Rightarrow>
               url request = u \<and> httpMethod request = http_method \<and>
               headers request ''Content-Type'' = Some ''application/json'' \<and>
               fst out = (case data_for env request of
                            Inl e \<Rightarrow> Inl (Transport_Failure e)
                          | Inr (data, response) \<Rightarrow> handle_response env data response)
           | _ \<Rightarrow> False))"

definition proxy_contract ::
  "('b, 't) veo_env \<Rightarrow> string \<Rightarrow> string \<Rightarrow> 'b option \<Rightarrow> 't outcome \<Rightarrow> bool" where
  "proxy_contract env endpoint http_method body out \<longleftrightarrow>
     round_trip env (base_url @ proxy_path endpoint) (proxy_method endpoint http_method) body out"

text \<open>
  Reading an "HTTP Error" message back: the status code and the body text, the two
  things the spec (section 8) asks the message to contain.
\<close>

definition parse_status_message :: "string \<Rightarrow> (int \<times> string) option" where
  "parse_status_message s =
     (if take 13 s = ''Status code: '' then
        (let rest = drop 13 s;
             digits = takeWhile (\<lambda>c. c \<noteq> CHR '' '') rest;
             after = dropWhile (\<lambda>c. c \<noteq> CHR '' '') rest
         in if take 3 after = '' - '' then map_option (\<lambda>code. (code, drop 3 after)) (parse_int digits)
            else None)
      else None)"

text \<open>The errors the adapter throws itself, with their message text.\<close>

definition veo_error_ok :: "veo_error \<Rightarrow> bool" where
  "veo_error_ok err \<longleftrightarrow>
     error err \<in> {''Invalid URL'', ''Invalid response'', ''HTTP Error''} \<and>
     utf8_valid (utf8_data (message err))"

declare json_request_def [proxy_defs] url_request_init_def [proxy_defs] send_def [proxy_defs]
  send_encoded_def [proxy_defs] performSimplifiedRequest_def [proxy_defs]
  performCheckOperation_def [proxy_defs] performRequestViaProxy_def [proxy_defs]

subsection \<open>Requests and sending\<close>

lemma json_request_fields [simp]:
  "url (json_request u m) = u"
  "httpMethod (json_request u m) = m"
  "headers (json_request u m) ''Content-Type'' = Some ''application/json''"
  "httpBody (json_request u m) = None"
  by (simp_all add: json_request_def url_request_init_def)

lemma snd_send [simp]: "snd (send env request) = [request]"
  by (simp add: send_def split: sum.split prod.split)

lemma fst_send:
  "fst (send env request) =
     (case data_for env request of
        Inl e \<Rightarrow> Inl (Transport_Failure e)
      | Inr (data, response) \<Rightarrow> handle_response env data response)"
  by (simp add: send_def split: sum.split prod.split)

lemma round_trip_invalid_url:
  "url_of_string env target = None \<Longrightarrow>
   round_trip env target m body (Inl (Veo_Failure invalid_url_error), [])"
  by (simp add: round_trip_def)

lemma round_trip_send:
  assumes "url_of_string env target = Some u" and "url request = u" and "httpMethod request = m"
    and "headers request ''Content-Type'' = Some ''application/json''"
  shows "round_trip env target m body (send env request)"
  using assms by (simp add: round_trip_def fst_send)

lemma round_trip_send_encoded:
  assumes url: "url_of_string env target = Some u"
  shows "round_trip env target m body (send_encoded env (json_request u m) body)"
proof (cases body)
  case None
  with url show ?thesis by (simp add: send_encoded_def round_trip_send)
next
  case (Some b)
  show ?thesis
  proof (cases "encode env b")
    case (Inl e)
    with Some url show ?thesis by (simp add: send_encoded_def round_trip_def)
  next
    case (Inr j)
    with Some url show ?thesis by (simp add: send_encoded_def round_trip_send)
  qed
qed

subsection \<open>Each request function meets the contract\<close>

lemma performSimplifiedRequest_round_trip:
  "round_trip env (base_url @ ''/generate-video'') ''POST'' body (performSimplifiedRequest env body)"
proof (cases "url_of_string env (base_url @ ''/generate-video'')")
  case None
  then show ?thesis by (simp add: performSimplifiedRequest_def round_trip_invalid_url)
next
  case (Some u)
  then show ?thesis
    by (simp add: performSimplifiedRequest_def Let_def round_trip_send split: option.split)
qed

lemma performCheckOperation_round_trip:
  "round_trip env (base_url @ ''/check-operation'') ''POST'' body (performCheckOperation env body)"
  by (simp add: performCheckOperation_def round_trip_invalid_url round_trip_send_encoded
      split: option.split)

lemma proxy_round_trip:
  "proxy_contract env endpoint http_method body (performRequestViaProxy env endpoint http_method body)"
proof (cases "sublist '':predictLongRunning'' endpoint")
  case True
  then show ?thesis
    by (simp add: proxy_contract_def performRequestViaProxy_def proxy_path_def proxy_method_def
        performSimplifiedRequest_round_trip)
next
  case not_generate: False
  show ?thesis
  proof (cases "sublist '':fetchPredictOperation'' endpoint")
    case True
    with not_generate show ?thesis
      by (simp add: proxy_contract_def performRequestViaProxy_def proxy_path_def proxy_method_def
          performCheckOperation_round_trip)
  next
    case False
    with not_generate show ?thesis
      by (simp add: proxy_contract_def performRequestViaProxy_def proxy_path_def proxy_method_def
          round_trip_invalid_url round_trip_send_encoded split: option.split)
  qed
qed

text \<open>
  C1: \<open>performRequestViaProxy\<close> implements the contract: the generation start goes
  to \<open>/generate-video\<close> and the status fetch to \<open>/check-operation\<close>, both as POST,
  anything else to its own path with the caller's method; one round trip at most,
  none when the URL cannot be built, and the result is the handling of that one
  response (no retry).
\<close>

theorem performRequestViaProxy_round_trip:
  "round_trip env (base_url @ proxy_path endpoint) (proxy_method endpoint http_method) body
     (performRequestViaProxy env endpoint http_method body)"
  using proxy_round_trip by (simp add: proxy_contract_def)

lemma round_trip_sent:
  assumes "round_trip env target m body out" and "url_of_string env target = Some u"
    and "\<forall>b e. encode env b \<noteq> Inl e"
  shows "\<exists>request. snd out = [request] \<and> url request = u \<and>
           fst out = (case data_for env request of
                        Inl e \<Rightarrow> Inl (Transport_Failure e)
                      | Inr (data, response) \<Rightarrow> handle_response env data response)"
  using assms by (auto simp: round_trip_def split: list.splits)

lemma proxy_sent:
  assumes "url_of_string env (base_url @ proxy_path endpoint) = Some u"
    and "\<forall>b e. encode env b \<noteq> Inl e"
  obtains request where
    "snd (performRequestViaProxy env endpoint http_method body) = [request]"
    "fst (performRequestViaProxy env endpoint http_method body) =
       (case data_for env request of
          Inl e \<Rightarrow> Inl (Transport_Failure e)
        | Inr (data, response) \<Rightarrow> handle_response env data response)"
  using round_trip_sent [OF proxy_round_trip [unfolded proxy_contract_def] assms] by blast

text \<open>
  C2: when the target URL cannot be built the call throws "Invalid URL" and sends
  no request.
\<close>

theorem proxy_invalid_url:
  "url_of_string env (base_url @ proxy_path endpoint) = None \<Longrightarrow>
   performRequestViaProxy env endpoint http_method body = (Inl (Veo_Failure invalid_url_error), [])"
  using proxy_round_trip [of env endpoint http_method body]
  by (simp add: proxy_contract_def round_trip_def)

text \<open>
  C3: status 200 with a body that decodes gives the decoded value, after exactly
  one request, on every branch.
\<close>

theorem proxy_status_200:
  assumes "url_of_string env (base_url @ proxy_path endpoint) \<noteq> None"
    and "\<forall>request. data_for env request = Inr (data, HTTPURLResponse 200)"
    and "decode env data = Inr v"
    and "\<forall>b e. encode env b \<noteq> Inl e"
  shows "fst (performRequestViaProxy env endpoint http_method body) = Inr v \<and>
         length (snd (performRequestViaProxy env endpoint http_method body)) = 1"
proof -
  from assms(1) obtain u where "url_of_string env (base_url @ proxy_path endpoint) = Some u"
    by auto
  then obtain request where
    "snd (performRequestViaProxy env endpoint http_method body) = [request]" and
    "fst (performRequestViaProxy env endpoint http_method body) =
       (case data_for env request of
          Inl e \<Rightarrow> Inl (Transport_Failure e)
        | Inr (data, response) \<Rightarrow> handle_response env data response)"
    using assms(4) by (rule proxy_sent)
  with assms(2,3) show ?thesis by (simp add: handle_response_def)
qed

text \<open>
  C4: any other status throws "HTTP Error" whose message is
  \<open>Status code: <code> - <body text>\<close>, the body text being "Unknown error"
  when the body is not UTF-8.
\<close>

theorem proxy_http_error:
  assumes "url_of_string env (base_url @ proxy_path endpoint) \<noteq> None"
    and "\<forall>request. data_for env request = Inr (data, HTTPURLResponse code)"
    and "code \<noteq> 200"
    and "\<forall>b e. encode env b \<noteq> Inl e"
  shows "fst (performRequestViaProxy env endpoint http_method body) =
           Inl (Veo_Failure \<lparr>error = ''HTTP Error'',
                   message = status_message code
                     (case utf8_string data of Some s \<Rightarrow> s | None \<Rightarrow> ''Unknown error'')\<rparr>)"
proof -
  from assms(1) obtain u where "url_of_string env (base_url @ proxy_path endpoint) = Some u"
    by auto
  then obtain request where
    "fst (performRequestViaProxy env endpoint http_method body) =
       (case data_for env request of
          Inl e \<Rightarrow> Inl (Transport_Failure e)
        | Inr (data, response) \<Rightarrow> handle_response env data response)"
    using assms(4) by (rule proxy_sent)
  with assms(2,3) show ?thesis by (simp add: handle_response_def http_error_def)
qed

text \<open>
  C5: the "HTTP Error" message determines the status code and the body text: reading
  it back gives both.
\<close>

theorem status_message_roundtrip:
  "parse_status_message (status_message code msg) = Some (code, msg)"
proof -
  have "\<forall>c \<in> set (int_description code). c \<noteq> CHR '' ''"
    using int_description_no_space by auto
  then show ?thesis
    by (simp add: parse_status_message_def status_message_def)
qed

subsection \<open>The errors the adapter throws\<close>

lemma utf8_valid_status_message:
  assumes "utf8_valid (utf8_data msg)"
  shows "utf8_valid (utf8_data (status_message code msg))"
proof -
  have prefix: "utf8_valid (utf8_data ''Status code: '')"
    by (rule utf8_valid_ascii_text) simp
  have sep: "utf8_valid (utf8_data '' - '')"
    by (rule utf8_valid_ascii_text) simp
  have "utf8_data (status_message code msg) =
          utf8_data ''Status code: '' @ utf8_data (int_description code) @
          utf8_data '' - '' @ utf8_data msg"
    by (simp only: status_message_def utf8_data_append)
  then show ?thesis
    by (simp only:) (intro utf8_valid_append prefix sep assms utf8_valid_int_description)
qed

lemma veo_error_ok_http_error: "veo_error_ok (http_error code data)"
proof (cases "utf8_string data")
  case None
  then show ?thesis
    by (simp add: veo_error_ok_def http_error_def utf8_valid_status_message
        utf8_valid_ascii_text)
next
  case (Some s)
  then show ?thesis
    by (simp add: veo_error_ok_def http_error_def utf8_valid_status_message
        utf8_valid_utf8_string)
qed

lemma veo_error_ok_constants:
  "veo_error_ok invalid_url_error" "veo_error_ok invalid_response_error"
  by (simp_all add: veo_error_ok_def invalid_url_error_def invalid_response_error_def
      utf8_valid_ascii_text)

lemma handle_response_encode [simp]:
  "handle_response (env\<lparr>encode := f\<rparr>) data response =
     handle_response (env :: ('b, 't) veo_env) data response"
  by (simp add: handle_response_def split: url_response.split)

lemma handle_response_veo_failure:
  "handle_response env data response = Inl (Veo_Failure err) \<Longrightarrow> veo_error_ok err"
  by (auto simp: handle_response_def veo_error_ok_http_error veo_error_ok_constants
      split: url_response.splits if_splits sum.splits)

text \<open>
  C6: every error the adapter throws itself is one of the three kinds the spec lists
  (invalid URL, invalid response, HTTP error), and its message is well-formed text.
\<close>

theorem proxy_failures_ok:
  "fst (performRequestViaProxy env endpoint http_method body) = Inl (Veo_Failure err) \<Longrightarrow>
   veo_error_ok err"
  using proxy_round_trip [of env endpoint http_method body]
  by (auto simp: proxy_contract_def round_trip_def veo_error_ok_constants
      split: option.splits list.splits sum.splits prod.splits
      dest: handle_response_veo_failure)

subsection \<open>The simplified generation body\<close>

lemma instance_fields_other:
  "k \<notin> {''prompt'', ''image'', ''imageMimeType''} \<Longrightarrow> instance_fields inst body k = body k"
  by (simp add: instance_fields_def Let_def split: option.split)

lemma parameter_fields_other:
  "k \<notin> {''aspectRatio'', ''durationSeconds'', ''enhancePrompt'', ''generateAudio'',
         ''personGeneration'', ''sampleCount'', ''negativePrompt'', ''seed'', ''storageUri''} \<Longrightarrow>
   parameter_fields params body k = body k"
  by (simp add: parameter_fields_def Let_def split: option.split)

lemma parameter_fields_optional:
  "parameter_fields params body ''negativePrompt'' =
     (case negativePrompt params of None \<Rightarrow> body ''negativePrompt'' | Some v \<Rightarrow> Some (JString v))"
  "parameter_fields params body ''seed'' =
     (case seed params of None \<Rightarrow> body ''seed'' | Some v \<Rightarrow> Some (JNumber (of_int v)))"
  "parameter_fields params body ''storageUri'' =
     (case storageUri params of None \<Rightarrow> body ''storageUri'' | Some v \<Rightarrow> Some (JString v))"
  by (simp_all add: parameter_fields_def Let_def split: option.split)

lemma simplified_body_instance_key:
  assumes "k \<in> {''prompt'', ''image'', ''imageMimeType''}"
  shows "simplified_body veoRequest k =
           (case instances veoRequest of [] \<Rightarrow> None | inst # _ \<Rightarrow> instance_fields inst Map.empty k)"
  using assms
  by (auto simp: simplified_body_def Let_def parameter_fields_other split: option.split list.split)

text \<open>
  C7: the request \<open>performSimplifiedRequest\<close> sends carries the simplified body of
  the caller's request when the body is a \<open>VeoVideoGenerationRequest\<close>, and no
  body at all otherwise.
\<close>

theorem generate_video_body:
  "request \<in> set (snd (performSimplifiedRequest env body)) \<Longrightarrow>
   httpBody request =
     map_option (\<lambda>veoRequest. Json_Object (simplified_body veoRequest))
       (Option.bind body (as_generation_request env))"
  by (auto simp: performSimplifiedRequest_def Let_def split: option.splits)

text \<open>
  C8: the simplified body has no key beyond the twelve the proxy's
  \<open>/generate-video\<close> endpoint reads.
\<close>

theorem simplified_body_keys:
  "dom (simplified_body veoRequest) \<subseteq>
     {''prompt'', ''image'', ''imageMimeType'', ''aspectRatio'', ''durationSeconds'',
      ''enhancePrompt'', ''generateAudio'', ''personGeneration'', ''sampleCount'',
      ''negativePrompt'', ''seed'', ''storageUri''}"
proof
  fix k
  assume dom: "k \<in> dom (simplified_body veoRequest)"
  show "k \<in> {''prompt'', ''image'', ''imageMimeType'', ''aspectRatio'', ''durationSeconds'',
      ''enhancePrompt'', ''generateAudio'', ''personGeneration'', ''sampleCount'',
      ''negativePrompt'', ''seed'', ''storageUri''}"
  proof (rule ccontr)
    assume "k \<notin> {''prompt'', ''image'', ''imageMimeType'', ''aspectRatio'', ''durationSeconds'',
      ''enhancePrompt'', ''generateAudio'', ''personGeneration'', ''sampleCount'',
      ''negativePrompt'', ''seed'', ''storageUri''}"
    then have "simplified_body veoRequest k = None"
      by (simp add: simplified_body_def Let_def instance_fields_other parameter_fields_other
          split: option.split list.split)
    with dom show False by auto
  qed
qed

text \<open>
  C9: each optional parameter (negative prompt, seed, storage URI) is in the body
  exactly when the caller's parameters have it, with its value; an absent one is
  omitted, not sent as null.
\<close>

theorem simplified_body_optional_parameters:
  "simplified_body veoRequest ''negativePrompt'' =
     Option.bind (parameters veoRequest) (\<lambda>p. map_option JString (negativePrompt p)) \<and>
   simplified_body veoRequest ''seed'' =
     Option.bind (parameters veoRequest) (\<lambda>p. map_option (JNumber \<circ> of_int) (seed p)) \<and>
   simplified_body veoRequest ''storageUri'' =
     Option.bind (parameters veoRequest) (\<lambda>p. map_option JString (storageUri p))"
  by (simp add: simplified_body_def Let_def parameter_fields_optional instance_fields_other
      split: option.split list.split)

text \<open>
  C10: the image and its MIME type come from the first instance only, and only
  when the image has base64 bytes: a MIME type without bytes is dropped.
\<close>

theorem simplified_body_image:
  "simplified_body veoRequest ''image'' =
     (case instances veoRequest of [] \<Rightarrow> None
      | inst # _ \<Rightarrow> Option.bind (instance_image inst)
                      (\<lambda>img. map_option JString (bytesBase64Encoded img))) \<and>
   simplified_body veoRequest ''imageMimeType'' =
     (case instances veoRequest of [] \<Rightarrow> None
      | inst # _ \<Rightarrow> Option.bind (instance_image inst)
                      (\<lambda>img. Option.bind (bytesBase64Encoded img)
                               (\<lambda>_. map_option JString (mimeType img))))"
  by (simp add: simplified_body_instance_key instance_fields_def Let_def
      split: option.split list.split)

text \<open>
  C11: the status fetch forwards the caller's body as its encoder produced it, in a
  POST to \<open>/check-operation\<close> with a JSON content type.
\<close>

theorem check_operation_forwards_body:
  "url_of_string env (base_url @ ''/check-operation'') = Some u \<Longrightarrow> encode env b = Inr j \<Longrightarrow>
   snd (performCheckOperation env (Some b)) =
     [\<lparr>url = u, httpMethod = ''POST'', headers = [''Content-Type'' \<mapsto> ''application/json''],
       httpBody = Some (Encoded_Json j)\<rparr>]"
  by (simp add: performCheckOperation_def send_encoded_def json_request_def url_request_init_def)

text \<open>
  C17: the status fetch is the pass-through branch specialised: for every platform
  and body, \<open>performCheckOperation\<close> does exactly what \<open>performRequestViaProxy\<close> does
  for the endpoint \<open>/check-operation\<close> with the method POST.
\<close>

theorem check_operation_is_pass_through:
  "performCheckOperation env body = performRequestViaProxy env ''/check-operation'' ''POST'' body"
  by (simp add: performRequestViaProxy_def performCheckOperation_def sublist_code)

subsection \<open>The failure paths\<close>

text \<open>
  C20: a response that is not an \<open>HTTPURLResponse\<close> throws "Invalid response" after
  the one request, on every branch; the body is not decoded.
\<close>

theorem proxy_invalid_response:
  assumes "url_of_string env (base_url @ proxy_path endpoint) \<noteq> None"
    and "\<forall>request. data_for env request = Inr (data, Non_HTTP_Response)"
    and "\<forall>b e. encode env b \<noteq> Inl e"
  shows "fst (performRequestViaProxy env endpoint http_method body) =
           Inl (Veo_Failure invalid_response_error) \<and>
         length (snd (performRequestViaProxy env endpoint http_method body)) = 1"
proof -
  from assms(1) obtain u where "url_of_string env (base_url @ proxy_path endpoint) = Some u"
    by auto
  then obtain request where
    "snd (performRequestViaProxy env endpoint http_method body) = [request]" and
    "fst (performRequestViaProxy env endpoint http_method body) =
       (case data_for env request of
          Inl e \<Rightarrow> Inl (Transport_Failure e)
        | Inr (data, response) \<Rightarrow> handle_response env data response)"
    using assms(3) by (rule proxy_sent)
  with assms(2) show ?thesis by (simp add: handle_response_def)
qed

text \<open>
  C21: status 200 with a body the decoder rejects propagates the decoder's error
  (the \<open>try\<close> of \<open>JSONDecoder().decode\<close>), after the one request; it is not turned
  into an "HTTP Error".
\<close>

theorem proxy_decoding_failure:
  assumes "url_of_string env (base_url @ proxy_path endpoint) \<noteq> None"
    and "\<forall>request. data_for env request = Inr (data, HTTPURLResponse 200)"
    and "decode env data = Inl e"
    and "\<forall>b e. encode env b \<noteq> Inl e"
  shows "fst (performRequestViaProxy env endpoint http_method body) = Inl (Decoding_Failure e) \<and>
         length (snd (performRequestViaProxy env endpoint http_method body)) = 1"
proof -
  from assms(1) obtain u where "url_of_string env (base_url @ proxy_path endpoint) = Some u"
    by auto
  then obtain request where
    "snd (performRequestViaProxy env endpoint http_method body) = [request]" and
    "fst (performRequestViaProxy env endpoint http_method body) =
       (case data_for env request of
          Inl e \<Rightarrow> Inl (Transport_Failure e)
        | Inr (data, response) \<Rightarrow> handle_response env data response)"
    using assms(4) by (rule proxy_sent)
  with assms(2,3) show ?thesis by (simp add: handle_response_def)
qed

text \<open>
  C22: when the session throws, the call throws that error after handing the session
  exactly one request: there is no retry.
\<close>

theorem proxy_transport_failure:
  assumes "url_of_string env (base_url @ proxy_path endpoint) \<noteq> None"
    and "\<forall>request. data_for env request = Inl e"
    and "\<forall>b e. encode env b \<noteq> Inl e"
  shows "fst (performRequestViaProxy env endpoint http_method body) = Inl (Transport_Failure e) \<and>
         length (snd (performRequestViaProxy env endpoint http_method body)) = 1"
proof -
  from assms(1) obtain u where "url_of_string env (base_url @ proxy_path endpoint) = Some u"
    by auto
  then obtain request where
    "snd (performRequestViaProxy env endpoint http_method body) = [request]" and
    "fst (performRequestViaProxy env endpoint http_method body) =
       (case data_for env request of
          Inl e \<Rightarrow> Inl (Transport_Failure e)
        | Inr (data, response) \<Rightarrow> handle_response env data response)"
    using assms(3) by (rule proxy_sent)
  with assms(2) show ?thesis by simp
qed

text \<open>
  C23: on the status-fetch and pass-through branches, a body \<open>JSONEncoder\<close> cannot
  encode throws the encoder's error before any request is sent.
\<close>

theorem proxy_encoding_failure:
  assumes "\<not> sublist '':predictLongRunning'' endpoint"
    and "url_of_string env (base_url @ proxy_path endpoint) \<noteq> None"
    and "encode env b = Inl e"
  shows "performRequestViaProxy env endpoint http_method (Some b) = (Inl (Encoding_Failure e), [])"
proof (cases "sublist '':fetchPredictOperation'' endpoint")
  case True
  with assms show ?thesis
    by (auto simp: performRequestViaProxy_def performCheckOperation_def send_encoded_def
        proxy_path_def)
next
  case False
  with assms show ?thesis
    by (auto simp: performRequestViaProxy_def send_encoded_def proxy_path_def)
qed

text \<open>
  C24: the generation start never calls \<open>JSONEncoder\<close>: it serialises the simplified
  dictionary instead, so its outcome is the same whatever the encoder does, and it
  never fails with an encoding error.
\<close>

theorem generate_video_ignores_encoder:
  "performSimplifiedRequest (env\<lparr>encode := f\<rparr>) body = performSimplifiedRequest env body \<and>
   fst (performSimplifiedRequest env body) \<noteq> Inl (Encoding_Failure e)"
proof
  show "performSimplifiedRequest (env\<lparr>encode := f\<rparr>) body = performSimplifiedRequest env body"
    by (simp add: performSimplifiedRequest_def send_def handle_response_encode Let_def
        split: option.split sum.split)
  show "fst (performSimplifiedRequest env body) \<noteq> Inl (Encoding_Failure e)"
    by (simp add: performSimplifiedRequest_def send_def handle_response_def Let_def
        split: option.split sum.split url_response.split)
qed

subsection \<open>The remaining fields of the generation body\<close>

text \<open>
  C25: the prompt comes from the first instance, and the six fixed parameters
  (aspect ratio, duration, prompt enhancement, audio, person generation, sample
  count) are copied from the parameters block under their own keys, each present
  exactly when the caller set it.
\<close>

theorem simplified_body_fields:
  "simplified_body veoRequest ''prompt'' =
     (case instances veoRequest of [] \<Rightarrow> None | inst # _ \<Rightarrow> map_option JString (prompt inst)) \<and>
   simplified_body veoRequest ''aspectRatio'' =
     Option.bind (parameters veoRequest) (\<lambda>p. map_option JString (aspectRatio p)) \<and>
   simplified_body veoRequest ''durationSeconds'' =
     Option.bind (parameters veoRequest) (\<lambda>p. map_option (JNumber \<circ> of_int) (durationSeconds p)) \<and>
   simplified_body veoRequest ''enhancePrompt'' =
     Option.bind (parameters veoRequest) (\<lambda>p. map_option JBool (enhancePrompt p)) \<and>
   simplified_body veoRequest ''generateAudio'' =
     Option.bind (parameters veoRequest) (\<lambda>p. map_option JBool (generateAudio p)) \<and>
   simplified_body veoRequest ''personGeneration'' =
     Option.bind (parameters veoRequest) (\<lambda>p. map_option JString (personGeneration p)) \<and>
   simplified_body veoRequest ''sampleCount'' =
     Option.bind (parameters veoRequest) (\<lambda>p. map_option (JNumber \<circ> of_int) (sampleCount p))"
proof (intro conjI)
  show "simplified_body veoRequest ''prompt'' =
     (case instances veoRequest of [] \<Rightarrow> None | inst # _ \<Rightarrow> map_option JString (prompt inst))"
    by (simp add: simplified_body_instance_key instance_fields_def Let_def
        split: option.split list.split)
qed (simp_all add: simplified_body_def parameter_fields_def Let_def instance_fields_other
      split: option.split list.split)

end
