(* ===== verification/Spec2Isabelle.thy ===== *)
theory Spec2Isabelle
  imports Webhook_Json Veo_Proxy
begin

text \<open>
  \<^bold>\<open>A verification library for veo3-backend.\<close>

  The repository holds two unconnected parts.
  \<^item> \<open>src/src/types/revenuecat-webhooks.ts\<close> declares the RevenueCat webhook payload:
    string-literal unions (stores, environments, period types, the 18 event types),
    the shared \<open>BaseRevenueCatEvent\<close> and \<open>PurchaseEventFields\<close> interfaces, one
    interface per event, their union \<open>RevenueCatEvent\<close>, the wrapper
    \<open>RevenueCatWebhookPayload\<close>, and two type guards \<open>isInitialPurchase\<close>,
    \<open>isRenewal\<close>.
  \<^item> \<open>src/swift_config.swift\<close> declares \<open>GoogleCloudConfig\<close> (the proxy's base URL
    \<open>http://localhost:5000\<close>, project, region, the \<open>VeoModel\<close> raw values) and an
    extension of the app's \<open>VeoAPIService\<close>: \<open>performRequestViaProxy\<close> routes an
    endpoint containing \<open>:predictLongRunning\<close> to \<open>performSimplifiedRequest\<close> (POST
    \<open>/generate-video\<close> with a flattened body), one containing
    \<open>:fetchPredictOperation\<close> to \<open>performCheckOperation\<close> (POST
    \<open>/check-operation\<close> with the body unchanged), and sends anything else to its
    own path; each branch maps the response to a decoded value or a thrown error.

  \<^bold>\<open>Theories.\<close>
  \<^item> \<open>Prelude\<close>: the byte type standing for Foundation's \<open>Data\<close>, JSON values, the
    literal tables that decode a string-literal enumeration, the \<open>literal_defs\<close>
    and \<open>proxy_defs\<close> collections.
  \<^item> \<open>Webhook_Types\<close>: the TypeScript module.  Each literal union is a datatype with
    its literal and its decoding table; each interface a record; \<open>RevenueCatEvent\<close>
    the datatype \<open>revenue_cat_event\<close> whose constructor is the discriminant \<open>type\<close>
    (\<open>event_type\<close> reads it back).  \<open>number\<close> is \<open>rat\<close> (every finite double is
    rational), \<open>f?: T\<close> is an option, \<open>f?: T | null\<close> a \<open>nullable\<close> option, a field
    typed \<open>null\<close> is the constant null and carries no data; the index signature
    \<open>SubscriberAttributes\<close> is an association list with distinct keys.  The two
    guards hold exactly on their variant (C12, C13).
  \<^item> \<open>Webhook_Json\<close>: the runtime reading of those declarations (the TypeScript code
    never validates at run time; this is what the declarations accept).  A decoder
    per interface accepts a JSON object exactly when each required member is present
    with its type, each optional one is absent or typed, each \<open>T | null\<close> one may be
    null and each member typed \<open>null\<close> is null; a member is looked up as
    \<open>JSON.parse\<close> leaves it (the last of duplicate keys wins, at the place of the
    first).  The event decoder reads the tag and then the interface it selects
    (\<open>decode_variant\<close>).  Lemmas: the payload \<open>{event, api_version}\<close> round-trips
    for all 18 variants (C14); a decoded event's tag is the object's \<open>type\<close>
    member, so a tag selects one variant and no other (C15); an invoice-issuance
    event is accepted only with its null-typed members present and null (C16); an
    event without a required base member is rejected whatever its tag (C18), and a
    purchase event without a required member of \<open>PurchaseEventFields\<close> is rejected
    (C19).
  \<^item> \<open>Swift_Text\<close>: models of the two pieces of the Swift runtime the error message
    uses, \<open>"\(statusCode)"\<close> (\<open>int_description\<close>, with its inverse
    \<open>parse_int\<close>) and \<open>String(data:encoding: .utf8)\<close> (\<open>utf8_string\<close>: the text of
    well-formed UTF-8 bytes, \<open>nil\<close> otherwise).  They are library behaviour, not
    code of the repository, and carry no claim of their own.
  \<^item> \<open>Veo_Config\<close>: \<open>GoogleCloudConfig\<close> and \<open>VeoModel\<close> with its raw values; the
    app's \<open>VeoError\<close> and \<open>VeoVideoGenerationRequest\<close> types, which are not in this
    repository and are modelled from the spec and from the fields the adapter reads.
  \<^item> \<open>Veo_Proxy\<close>: the adapter.  Foundation is an environment record
    \<open>veo_env\<close> (\<open>URL(string:)\<close>, \<open>JSONEncoder\<close>, the cast to
    \<open>VeoVideoGenerationRequest\<close>, \<open>URLSession.data(for:)\<close>, \<open>JSONDecoder\<close>), so every
    theorem holds for every behaviour of the platform.  A call returns its result,
    a \<open>failure\<close> or the decoded value, together with the requests it handed to the
    session.  \<open>json_request\<close>, \<open>send\<close>, \<open>handle_response\<close>, \<open>send_encoded\<close> are
    the steps the three functions share; \<open>instance_fields\<close>, \<open>parameter_fields\<close> and
    \<open>simplified_body\<close> build the \<open>[String: Any]\<close> body, a map updated with
    \<open>m(k := v)\<close>, which is Swift's subscript assignment (an absent optional removes
    the key).  The abstract contract \<open>round_trip\<close> with \<open>proxy_path\<close> and
    \<open>proxy_method\<close> states the spec's promise; \<open>performRequestViaProxy\<close> refines it
    (C1).  From it, the outcome on each path of section 7 of the spec: an
    unbuildable URL throws "Invalid URL" with no request (C2); status 200 gives the
    decoded value after exactly one request (C3), or the decoder's error (C21); any
    other status throws "HTTP Error" with \<open>Status code: <n> - <body>\<close> (C4), a
    message from which code and body are read back (C5); a response that is not
    HTTP throws "Invalid response" (C20); a session error is thrown after one
    request, with no retry (C22); an unencodable body is thrown before any request
    on the status-fetch and pass-through branches (C23); every error the adapter
    throws itself is one of the three kinds of the spec (C6).  The generation body:
    what is sent (C7), its keys (C8), its optional parameters (C9), image (C10), and
    prompt and fixed parameters (C25); the generation start never uses
    \<open>JSONEncoder\<close> (C24).  The status fetch forwards the body (C11) and is the
    pass-through branch for \<open>/check-operation\<close> with POST (C17).
  \<^item> This theory: the witnesses, each running a theorem on a concrete platform
    (\<open>server_env\<close>, a server that answers every request with one status and body,
    or a variant of it) and a concrete event.

  \<^bold>\<open>Not modelled.\<close>  Foundation itself: URL parsing (what \<open>URL(string:)\<close> accepts
  depends on the OS release, so it stays a parameter of the environment and every
  theorem holds for each behaviour), JSON encoding and decoding of the app's
  \<open>Codable\<close> types (not in the repository), the byte layout \<open>JSONSerialization\<close>
  gives a dictionary (its key order is unspecified, so the body is kept as a map),
  the network, and the leading byte-order mark Foundation may strip when decoding
  text.  Swift's \<open>String.contains\<close> is the contiguous sublist test on the code
  units, which agrees with the character-level search for the ASCII markers the
  adapter looks for except where a combining character follows the marker.
  Concurrency: the adapter keeps no state between calls and shares none, so
  concurrent calls (section 5 of the spec) are independent runs of
  \<open>performRequestViaProxy\<close>; there is nothing to interleave, and no separate model
  of them is kept.  Task cancellation is not checked by the adapter: a cancelled call
  is one whose session throws (C22).  The repository has no loop and no integer
  arithmetic (the status code is only compared with 200 and printed), so no
  termination argument, fuel or word bound is needed.
\<close>

text \<open>Two platforms for the witnesses: a server that answers every request with one
  status and body, and one whose \<open>URL(string:)\<close> rejects everything; and a sample
  event base and invoice.\<close>

definition server_env :: "int \<Rightarrow> bytes \<Rightarrow> (unit, int) veo_env" where
  "server_env code data =
     \<lparr>url_of_string = Some, encode = (\<lambda>_. Inr JNull), as_generation_request = (\<lambda>_. None),
      data_for = (\<lambda>_. Inr (data, HTTPURLResponse code)), decode = (\<lambda>_. Inr 42)\<rparr>"

definition offline_env :: "(unit, int) veo_env" where
  "offline_env = (server_env 200 [])\<lparr>url_of_string := (\<lambda>_. None)\<rparr>"

definition sample_base :: base_revenue_cat_event where
  "sample_base =
     \<lparr>event_id = ''evt-1'', app_id = ''app-1'', app_user_id = ''user-1'',
      event_timestamp_ms = 1700000000000, aliases = Some [''user-1''],
      original_app_user_id = None, subscriber_attributes = None, store = Some APP_STORE\<rparr>"

definition sample_invoice :: invoice_issuance_fields where
  "sample_invoice =
     \<lparr>invoice_product_id = ''pro_monthly'', invoice_purchased_at_ms = 1700000000000,
      invoice_environment = PRODUCTION, invoice_is_family_share = False,
      invoice_country_code = Some ''US'', invoice_currency = Some ''USD'',
      invoice_price_in_purchased_currency = None\<rparr>"

theorem proxy_invalid_url_witness:
  "url_of_string offline_env (base_url @ proxy_path ''/v1/models'') = None \<and>
   performRequestViaProxy offline_env ''/v1/models'' ''GET'' None =
     (Inl (Veo_Failure invalid_url_error), [])"
  using proxy_invalid_url [of offline_env "''/v1/models''" "''GET''" None]
  by (simp add: offline_env_def server_env_def proxy_path_def sublist_code)

theorem proxy_status_200_witness:
  "fst (performRequestViaProxy (server_env 200 []) ''/v1/models/veo:predictLongRunning'' ''POST'' None)
     = Inr 42 \<and>
   length (snd (performRequestViaProxy (server_env 200 []) ''/v1/models/veo:predictLongRunning''
     ''POST'' None)) = 1"
  by (rule proxy_status_200) (simp_all add: server_env_def)

theorem proxy_http_error_witness:
  "fst (performRequestViaProxy (server_env 500 (utf8_data ''boom'')) ''/v1/operations'' ''GET'' None)
     = Inl (Veo_Failure \<lparr>error = ''HTTP Error'', message = ''Status code: 500 - boom''\<rparr>)"
proof -
  have body_text: "utf8_string (utf8_data ''boom'') = Some ''boom''"
    by (rule utf8_string_utf8_data) (rule utf8_valid_ascii_text, simp)
  have msg: "status_message 500 ''boom'' = ''Status code: 500 - boom''"
    by code_simp
  have "fst (performRequestViaProxy (server_env 500 (utf8_data ''boom'')) ''/v1/operations'' ''GET'' None)
     = Inl (Veo_Failure \<lparr>error = ''HTTP Error'', message = status_message 500
          (case utf8_string (utf8_data ''boom'') of Some s \<Rightarrow> s | None \<Rightarrow> ''Unknown error'')\<rparr>)"
    by (rule proxy_http_error) (simp_all add: server_env_def)
  then show ?thesis by (simp only: body_text msg option.case)
qed

theorem proxy_failures_ok_witness:
  "fst (performRequestViaProxy offline_env ''/v1/models'' ''GET'' None) =
     Inl (Veo_Failure invalid_url_error) \<and> veo_error_ok invalid_url_error"
proof -
  have out: "fst (performRequestViaProxy offline_env ''/v1/models'' ''GET'' None) =
     Inl (Veo_Failure invalid_url_error)"
    by (simp add: performRequestViaProxy_def offline_env_def server_env_def sublist_code
        performSimplifiedRequest_def performCheckOperation_def)
  then show ?thesis using proxy_failures_ok [OF out] by simp
qed

theorem generate_video_body_witness:
  "performSimplifiedRequest (server_env 200 []) (Some ()) =
     (Inr 42, [json_request (base_url @ ''/generate-video'') ''POST'']) \<and>
   httpBody (json_request (base_url @ ''/generate-video'') ''POST'') = None"
proof -
  have out: "performSimplifiedRequest (server_env 200 []) (Some ()) =
     (Inr 42, [json_request (base_url @ ''/generate-video'') ''POST''])"
    by (simp add: performSimplifiedRequest_def server_env_def send_def handle_response_def)
  have "json_request (base_url @ ''/generate-video'') ''POST'' \<in>
          set (snd (performSimplifiedRequest (server_env 200 []) (Some ())))"
    by (simp add: out)
  from generate_video_body [OF this] out show ?thesis
    by (simp add: server_env_def)
qed

theorem check_operation_forwards_body_witness:
  "snd (performCheckOperation (server_env 200 []) (Some ())) =
     [\<lparr>url = base_url @ ''/check-operation'', httpMethod = ''POST'',
       headers = [''Content-Type'' \<mapsto> ''application/json''], httpBody = Some (Encoded_Json JNull)\<rparr>]"
  by (rule check_operation_forwards_body) (simp_all add: server_env_def)


theorem decode_invoice_nulls_witness:
  "decode_event (encode_event (Invoice_Issuance_Event sample_base sample_invoice)) =
     Some (Invoice_Issuance_Event sample_base sample_invoice) \<and>
   (\<exists>obj. encode_event (Invoice_Issuance_Event sample_base sample_invoice) = JObject obj \<and>
          list_all (\<lambda>k. member obj k = Some JNull) invoice_null_keys)"
  using decode_invoice_nulls [OF decode_encode_event [of "Invoice_Issuance_Event sample_base sample_invoice"]]
  by (simp add: decode_encode_event)

theorem decode_event_requires_base_witness:
  "decode_event (JObject [(''type'', JString ''RENEWAL''), (''app_id'', JString ''app-1'')]) = None"
  by (rule decode_event_requires_base [of "''id''"]) (simp_all add: member_def)

theorem decode_event_requires_purchase_witness:
  "decode_event (JObject [(''type'', JString ''RENEWAL''), (''product_id'', JString ''pro_monthly'')])
     = None"
  by (rule decode_event_requires_purchase [of RENEWAL _ "''transaction_id''"]) (simp_all add: member_def)

theorem proxy_invalid_response_witness:
  "fst (performRequestViaProxy ((server_env 200 [])\<lparr>data_for := \<lambda>_. Inr ([], Non_HTTP_Response)\<rparr>)
      ''/v1/models'' ''GET'' None) = Inl (Veo_Failure invalid_response_error) \<and>
   length (snd (performRequestViaProxy
      ((server_env 200 [])\<lparr>data_for := \<lambda>_. Inr ([], Non_HTTP_Response)\<rparr>)
      ''/v1/models'' ''GET'' None)) = 1"
  by (rule proxy_invalid_response) (simp_all add: server_env_def)

theorem proxy_decoding_failure_witness:
  "fst (performRequestViaProxy ((server_env 200 [])\<lparr>decode := \<lambda>_. Inl ''not JSON''\<rparr>)
      ''/v1/models/veo:predictLongRunning'' ''POST'' None) = Inl (Decoding_Failure ''not JSON'') \<and>
   length (snd (performRequestViaProxy ((server_env 200 [])\<lparr>decode := \<lambda>_. Inl ''not JSON''\<rparr>)
      ''/v1/models/veo:predictLongRunning'' ''POST'' None)) = 1"
  by (rule proxy_decoding_failure) (simp_all add: server_env_def)

theorem proxy_transport_failure_witness:
  "fst (performRequestViaProxy ((server_env 200 [])\<lparr>data_for := \<lambda>_. Inl ''offline''\<rparr>)
      ''/v1/models/veo:fetchPredictOperation'' ''POST'' (Some ())) = Inl (Transport_Failure ''offline'') \<and>
   length (snd (performRequestViaProxy ((server_env 200 [])\<lparr>data_for := \<lambda>_. Inl ''offline''\<rparr>)
      ''/v1/models/veo:fetchPredictOperation'' ''POST'' (Some ()))) = 1"
  by (rule proxy_transport_failure) (simp_all add: server_env_def)

theorem proxy_encoding_failure_witness:
  "performRequestViaProxy ((server_env 200 [])\<lparr>encode := \<lambda>_. Inl ''unencodable''\<rparr>)
      ''/v1/operations'' ''POST'' (Some ()) = (Inl (Encoding_Failure ''unencodable''), [])"
  by (rule proxy_encoding_failure) (simp_all add: server_env_def proxy_path_def sublist_code)

end
